theory Spec2Isabelle
  imports Complex_Main
begin

section \<open>Numbers and errors\<close>

text \<open>
  A finite Python or numpy float is modelled by the real number it stands for: rounding,
  overflow and the sign of zero are outside this model. What numpy adds to the finite
  values is kept: a division by zero in numpy arithmetic gives an infinity or a
  not-a-number instead of raising, and pandas treats not-a-number as a missing cell.
\<close>

datatype fl = Fin real | PInf | NInf | NaN

datatype error = ValueError | KeyError | IndexError | ZeroDivisionError

datatype log_entry =
    Assumption string
  | MissingFields string "string list"
  | ExitMultipleInfo real

text \<open>numpy's \<open>x / y\<close> on two finite operands.\<close>

definition np_div :: "real \<Rightarrow> real \<Rightarrow> fl" where
  "np_div x y =
     (if y = 0 then (if x = 0 then NaN else if 0 < x then PInf else NInf)
      else Fin (x / y))"

fun fl_neg :: "fl \<Rightarrow> fl" where
  "fl_neg (Fin x) = Fin (- x)"
| "fl_neg PInf = NInf"
| "fl_neg NInf = PInf"
| "fl_neg NaN = NaN"

fun fl_add :: "fl \<Rightarrow> fl \<Rightarrow> fl" where
  "fl_add (Fin x) (Fin y) = Fin (x + y)"
| "fl_add NaN _ = NaN"
| "fl_add _ NaN = NaN"
| "fl_add PInf NInf = NaN"
| "fl_add NInf PInf = NaN"
| "fl_add PInf _ = PInf"
| "fl_add _ PInf = PInf"
| "fl_add NInf _ = NInf"
| "fl_add _ NInf = NInf"

definition fl_sub :: "fl \<Rightarrow> fl \<Rightarrow> fl" where
  "fl_sub a b = fl_add a (fl_neg b)"

text \<open>Division of a float by a finite, strictly positive divisor.\<close>

fun fl_div_pos :: "fl \<Rightarrow> real \<Rightarrow> fl" where
  "fl_div_pos (Fin x) s = Fin (x / s)"
| "fl_div_pos v s = v"

definition fl_sum :: "fl list \<Rightarrow> fl" where
  "fl_sum xs = foldl fl_add (Fin 0) xs"

section \<open>assumptions.py\<close>

record Assumptions =
  years :: int
  revenue_growth :: real
  ebit_margin :: real
  tax_rate :: real
  da_pct_revenue :: real
  capex_pct_revenue :: real
  d_nwc_pct_revenue :: real
  terminal_growth :: real
  use_ebitda_margin :: bool
  ebitda_margin :: "real option"

record Presets =
  Base :: Assumptions
  Bull :: Assumptions
  Bear :: Assumptions

definition scenario_presets :: "Assumptions \<Rightarrow> Presets" where
  "scenario_presets base =
     (let bull = \<lparr>
            years = years base,
            revenue_growth = revenue_growth base + 0.03,
            ebit_margin = min (ebit_margin base + 0.03) 0.4,
            tax_rate = tax_rate base,
            da_pct_revenue = max (da_pct_revenue base - 0.005) 0,
            capex_pct_revenue = max (capex_pct_revenue base - 0.005) 0,
            d_nwc_pct_revenue = max (d_nwc_pct_revenue base - 0.003) 0,
            terminal_growth = terminal_growth base + 0.005,
            use_ebitda_margin = use_ebitda_margin base,
            ebitda_margin = (case ebitda_margin base of Some m \<Rightarrow> Some (m + 0.02) | None \<Rightarrow> None)\<rparr>;
          bear = \<lparr>
            years = years base,
            revenue_growth = max (revenue_growth base - 0.03) (- 0.1),
            ebit_margin = max (ebit_margin base - 0.03) 0,
            tax_rate = tax_rate base,
            da_pct_revenue = da_pct_revenue base + 0.005,
            capex_pct_revenue = capex_pct_revenue base + 0.005,
            d_nwc_pct_revenue = d_nwc_pct_revenue base + 0.003,
            terminal_growth = max (terminal_growth base - 0.005) 0,
            use_ebitda_margin = use_ebitda_margin base,
            ebitda_margin = (case ebitda_margin base of Some m \<Rightarrow> Some (m - 0.02) | None \<Rightarrow> None)\<rparr>
      in \<lparr>Base = base, Bull = bull, Bear = bear\<rparr>)"

section \<open>forecast.py\<close>

record ForecastRow =
  year :: int
  revenue :: real
  ebit :: real
  nopat :: real
  da :: real
  capex :: real
  d_nwc :: real
  fcff :: real

text \<open>
  The body of the loop of \<open>build_forecast\<close>: the second argument is the value of the
  variable \<open>revenue\<close> on entry to the iteration, the third the years still to visit.
\<close>

fun forecast_rows :: "Assumptions \<Rightarrow> real \<Rightarrow> int list \<Rightarrow> ForecastRow list" where
  "forecast_rows a rev0 [] = []"
| "forecast_rows a rev0 (y # ys) =
     (let revenue = rev0 * (1 + revenue_growth a);
          (ebit, da) =
            (case (use_ebitda_margin a, ebitda_margin a) of
               (True, Some m) \<Rightarrow>
                 (let ebitda = m * revenue; da = da_pct_revenue a * revenue
                  in (max (ebitda - da) 0, da))
             | _ \<Rightarrow> (ebit_margin a * revenue, da_pct_revenue a * revenue));
          nopat = ebit * (1 - tax_rate a);
          capex = capex_pct_revenue a * revenue;
          d_nwc = d_nwc_pct_revenue a * revenue;
          fcff = nopat + da - capex - d_nwc
      in \<lparr>year = y, revenue = revenue, ebit = ebit, nopat = nopat, da = da,
          capex = capex, d_nwc = d_nwc, fcff = fcff\<rparr> # forecast_rows a revenue ys)"

text \<open>
  \<open>range(1, years + 1)\<close> is empty when \<open>years < 1\<close>; the data frame built from no row
  has no column, and \<open>set_index("year")\<close> raises \<open>KeyError\<close> on it.
\<close>

definition build_forecast :: "int \<Rightarrow> real \<Rightarrow> Assumptions \<Rightarrow> error + ForecastRow list" where
  "build_forecast last_actual_year last_actual_revenue assumptions =
     (let ys = map (\<lambda>i. last_actual_year + i) [1 .. years assumptions];
          rows = forecast_rows assumptions last_actual_revenue ys
      in if rows = [] then Inl KeyError else Inr rows)"

section \<open>dcf.py\<close>

record ValuationInputs =
  rf :: real
  erp :: real
  beta :: real
  cost_of_debt :: real
  vi_tax_rate :: real
  vi_equity_value :: "real option"
  net_debt :: "real option"

text \<open>
  The pivoted sensitivity table: its row labels (WACC), its column labels (terminal
  growth) and one list of cells for each row label.
\<close>

record Sensitivity =
  s_index :: "real list"
  s_columns :: "real list"
  s_values :: "fl list list"

record DCFResult =
  wacc :: real
  pv_fcff :: fl
  terminal_value :: fl
  enterprise_value :: fl
  equity_value :: "fl option"
  intrinsic_per_share :: "fl option"
  shares_outstanding :: "real option"
  sensitivity :: Sensitivity

definition compute_wacc :: "ValuationInputs \<Rightarrow> real \<Rightarrow> real \<Rightarrow> real" where
  "compute_wacc inp equity_weight debt_weight =
     (let ce = rf inp + beta inp * erp inp;
          cd_after_tax = cost_of_debt inp * (1 - vi_tax_rate inp)
      in equity_weight * ce + debt_weight * cd_after_tax)"

text \<open>
  \<open>fcff.values / disc\<close> is a division of numpy arrays: a zero discount factor gives
  an infinity or a not-a-number, never an exception.
\<close>

definition discount_cashflows :: "ForecastRow list \<Rightarrow> real \<Rightarrow> fl" where
  "discount_cashflows forecast_df wacc_v =
     fl_sum (map (\<lambda>(t, r). np_div (fcff r) ((1 + wacc_v) ^ t))
               (zip [1 ..< Suc (length forecast_df)] forecast_df))"

text \<open>
  The run-time type of the argument \<open>wacc\<close>: \<open>run_dcf\<close> calls \<open>terminal_gordon\<close>
  with the Python float that \<open>compute_wacc\<close> returns, and the sensitivity loop calls it
  with the elements of a numpy array. Only the last division tells them apart: Python's
  float division raises on a zero divisor, numpy's does not.
\<close>

datatype scalar = PyFloat | NpFloat64

definition terminal_gordon :: "scalar \<Rightarrow> ForecastRow list \<Rightarrow> real \<Rightarrow> real \<Rightarrow> error + fl" where
  "terminal_gordon k forecast_df wacc_v g =
     (if wacc_v \<le> g then Inl ValueError
      else if forecast_df = [] then Inl IndexError
      else
        let fcff_last = fcff (last forecast_df);
            tv = fcff_last * (1 + g) / (wacc_v - g);
            n = length forecast_df;
            d = (1 + wacc_v) ^ n
        in if d = 0 \<and> k = PyFloat then Inl ZeroDivisionError else Inr (np_div tv d))"

text \<open>\<open>np.linspace(start, stop, num)\<close> with the end point included.\<close>

definition linspace :: "real \<Rightarrow> real \<Rightarrow> nat \<Rightarrow> real list" where
  "linspace start stop num =
     (if num = 1 then [start]
      else map (\<lambda>i. start + real i * ((stop - start) / real (num - 1))) [0 ..< num])"

text \<open>\<open>np.rint\<close>: the nearest integer, a tie going to the even one.\<close>

definition rint :: "real \<Rightarrow> int" where
  "rint x =
     (let f = \<lfloor>x\<rfloor>; d = x - of_int f
      in if d < 1 / 2 then f else if 1 / 2 < d then f + 1
         else if even f then f else f + 1)"

text \<open>\<open>np.round(x, 4)\<close>: scale by \<open>10 ^ 4\<close>, round to the nearest integer, scale back.\<close>

definition np_round4 :: "real \<Rightarrow> real" where
  "np_round4 x = of_int (rint (x * 10000)) / 10000"

text \<open>The two axes of the sensitivity table, as \<open>run_dcf\<close> samples them.\<close>

definition wacc_range :: "real \<Rightarrow> real list" where
  "wacc_range wacc_v = map np_round4 (linspace (max (wacc_v - 0.02) 0.03) (wacc_v + 0.02) 5)"

definition g_range :: "real \<Rightarrow> real list" where
  "g_range terminal_growth_v =
     map np_round4 (linspace (max (terminal_growth_v - 0.01) 0) (terminal_growth_v + 0.01) 5)"

text \<open>
  One iteration of the inner sensitivity loop: any exception gives a not-a-number cell.
\<close>

definition sens_cell :: "ForecastRow list \<Rightarrow> real \<Rightarrow> real \<Rightarrow> fl" where
  "sens_cell forecast_df w g =
     (let pv = discount_cashflows forecast_df w
      in case terminal_gordon NpFloat64 forecast_df w g of
           Inl e \<Rightarrow> NaN
         | Inr tv \<Rightarrow> fl_add pv tv)"

definition sens_rows :: "ForecastRow list \<Rightarrow> real list \<Rightarrow> real list \<Rightarrow> (real \<times> real \<times> fl) list" where
  "sens_rows forecast_df ws gs =
     concat (map (\<lambda>w. map (\<lambda>g. (w, g, sens_cell forecast_df w g)) gs) ws)"

text \<open>
  \<open>DataFrame.pivot\<close> on the rows \<open>(wacc, g, enterprise_value)\<close>: it refuses two rows
  with the same \<open>(wacc, g)\<close> (\<open>ValueError\<close>: the index contains duplicate entries),
  and otherwise sorts the distinct labels of both axes; a combination with no row would
  be a not-a-number cell. A frame built from no row has no column to pivot on.
\<close>

definition pivot :: "(real \<times> real \<times> fl) list \<Rightarrow> error + Sensitivity" where
  "pivot rows =
     (let keys = map (\<lambda>(w, g, v). (w, g)) rows
      in if rows = [] then Inl KeyError
         else if \<not> distinct keys then Inl ValueError
         else
           let ws = sort (remdups (map fst keys));
               gs = sort (remdups (map snd keys));
               cell = (\<lambda>w g. case map_of (map (\<lambda>(w, g, v). ((w, g), v)) rows) (w, g) of
                               None \<Rightarrow> NaN | Some v \<Rightarrow> v)
           in Inr \<lparr>s_index = ws, s_columns = gs,
                   s_values = map (\<lambda>w. map (\<lambda>g. cell w g) gs) ws\<rparr>)"

text \<open>
  The optional exit-multiple check of \<open>run_dcf\<close>: it only logs a value, but reading the
  last element of an empty series raises.
\<close>

definition exit_multiple_check ::
    "real \<Rightarrow> nat \<Rightarrow> real option \<Rightarrow> real list option \<Rightarrow> error + log_entry list" where
  "exit_multiple_check wacc_v n exit_multiple exit_metric =
     (case (exit_multiple, exit_metric) of
        (Some m, Some series) \<Rightarrow>
          if series = [] then Inl IndexError
          else
            let final_metric = last series;
                tv_exit = final_metric * m;
                d = (1 + wacc_v) ^ n
            in if d = 0 then Inl ZeroDivisionError else Inr [ExitMultipleInfo (tv_exit / d)]
      | _ \<Rightarrow> Inr [])"

definition run_dcf ::
    "ForecastRow list \<Rightarrow> ValuationInputs \<Rightarrow> real \<Rightarrow> real \<Rightarrow> real \<Rightarrow> real option \<Rightarrow>
     real option \<Rightarrow> real list option \<Rightarrow> error + (DCFResult \<times> log_entry list)" where
  "run_dcf forecast_df val_inp equity_weight debt_weight terminal_growth_v shares
           exit_multiple exit_metric =
     (let wacc_v = compute_wacc val_inp equity_weight debt_weight;
          pv = discount_cashflows forecast_df wacc_v
      in case terminal_gordon PyFloat forecast_df wacc_v terminal_growth_v of
           Inl e \<Rightarrow> Inl e
         | Inr tv_gg \<Rightarrow>
            (let ev = fl_add pv tv_gg
             in case exit_multiple_check wacc_v (length forecast_df) exit_multiple exit_metric of
                  Inl e \<Rightarrow> Inl e
                | Inr lg \<Rightarrow>
                   (let eq_value = (case net_debt val_inp of
                                      None \<Rightarrow> None
                                    | Some nd \<Rightarrow> Some (fl_sub ev (Fin nd)));
                        intrinsic_ps = (case eq_value of
                                          None \<Rightarrow> None
                                        | Some eq \<Rightarrow>
                                           (case shares of
                                              None \<Rightarrow> None
                                            | Some s \<Rightarrow>
                                                if 0 < s then Some (fl_div_pos eq s) else None));
                        ws = wacc_range wacc_v;
                        gs = g_range terminal_growth_v
                    in case pivot (sens_rows forecast_df ws gs) of
                         Inl e \<Rightarrow> Inl e
                       | Inr sens \<Rightarrow>
                           Inr (\<lparr>wacc = wacc_v, pv_fcff = pv, terminal_value = tv_gg,
                                 enterprise_value = ev, equity_value = eq_value,
                                 intrinsic_per_share = intrinsic_ps,
                                 shares_outstanding = shares, sensitivity = sens\<rparr>, lg))))"

section \<open>Data frames\<close>

text \<open>
  A pandas data frame of a statement: the row labels (fiscal years) in their order, and the
  columns in their order, each a partial map from a row label to its number. A label with
  no value in a column is a missing cell (not-a-number). Two rows with the same label
  cannot hold different data in this model: statements are indexed by distinct fiscal
  years. A series is the list of the cells of one column, in the order of the row labels.
\<close>

type_synonym cell = "real option"

record Frame =
  index :: "int list"
  columns :: "(string \<times> (int \<Rightarrow> cell)) list"

definition df_empty :: "Frame \<Rightarrow> bool" where
  "df_empty df \<longleftrightarrow> index df = [] \<or> columns df = []"

definition has_col :: "Frame \<Rightarrow> string \<Rightarrow> bool" where
  "has_col df c \<longleftrightarrow> c \<in> set (map fst (columns df))"

text \<open>\<open>df.get(c)\<close>: the series of column \<open>c\<close>, or \<open>None\<close> when the frame has no such column.\<close>

definition df_get :: "Frame \<Rightarrow> string \<Rightarrow> cell list option" where
  "df_get df c = (case map_of (columns df) c of
                    None \<Rightarrow> None
                  | Some f \<Rightarrow> Some (map f (index df)))"

text \<open>\<open>df.loc[ys]\<close> with a list of labels: \<open>KeyError\<close> when a label is not in the index.\<close>

definition df_loc :: "Frame \<Rightarrow> int list \<Rightarrow> error + Frame" where
  "df_loc df ys = (if set ys \<subseteq> set (index df) then Inr (df\<lparr>index := ys\<rparr>) else Inl KeyError)"

text \<open>\<open>df[c] = f\<close>: an existing column is replaced in place, a new one goes last.\<close>

definition set_col :: "Frame \<Rightarrow> string \<Rightarrow> (int \<Rightarrow> cell) \<Rightarrow> Frame" where
  "set_col df c f =
     df\<lparr>columns := (if has_col df c
                     then map (\<lambda>(k, v). if k = c then (k, f) else (k, v)) (columns df)
                     else columns df @ [(c, f)])\<rparr>"

section \<open>utils.py\<close>

definition validate_fields :: "Frame \<Rightarrow> string list \<Rightarrow> string \<Rightarrow> log_entry list" where
  "validate_fields df required statement_name =
     (let missing = filter (\<lambda>c. \<not> has_col df c) required
      in if missing \<noteq> [] then [MissingFields statement_name missing] else [])"

definition log_assumption :: "string \<Rightarrow> log_entry list" where
  "log_assumption msg = [Assumption msg]"

text \<open>
  \<open>align_fiscal_years\<close>: the sorted intersection of the indices, and every frame restricted
  to it. The labels of the intersection are in every index, so \<open>loc\<close> cannot fail here.
\<close>

definition align_fiscal_years :: "Frame list \<Rightarrow> Frame list" where
  "align_fiscal_years dfs =
     (case dfs of
        [] \<Rightarrow> []
      | d0 # rest \<Rightarrow>
          let common = sort (remdups (filter (\<lambda>y. \<forall>d \<in> set rest. y \<in> set (index d)) (index d0)))
          in map (\<lambda>df. df\<lparr>index := common\<rparr>) dfs)"

section \<open>metrics.py\<close>

record HistoricalMetrics =
  revenue_cagr :: real
  hm_ebit_margin :: fl
  hm_ebitda_margin :: "fl option"
  hm_capex_pct_revenue :: fl
  hm_da_pct_revenue :: fl
  hm_d_nwc_pct_revenue :: fl
  lookback_years :: nat

text \<open>\<open>Series.dropna\<close> on a series of statement cells and on a series of ratios.\<close>

definition dropna :: "cell list \<Rightarrow> real list" where
  "dropna s = List.map_filter id s"

definition fl_dropna :: "fl list \<Rightarrow> fl list" where
  "fl_dropna s = filter (\<lambda>v. v \<noteq> NaN) s"

definition compute_cagr :: "cell list \<Rightarrow> real option" where
  "compute_cagr series =
     (let s = dropna series
      in if length s < 3 then None
         else
           let start = hd s; end = last s; n_periods = length s - 1
           in if start \<le> 0 \<or> end \<le> 0 then None
              else Some ((end / start) powr (1 / real n_periods) - 1))"

text \<open>Element-wise arithmetic of two series over the same row labels.\<close>

definition series_div :: "cell list \<Rightarrow> cell list \<Rightarrow> fl list" where
  "series_div xs ys =
     map (\<lambda>(a, b). case a of None \<Rightarrow> NaN
                    | Some x \<Rightarrow> (case b of None \<Rightarrow> NaN | Some y \<Rightarrow> np_div x y)) (zip xs ys)"

definition series_add :: "cell list \<Rightarrow> cell list \<Rightarrow> cell list" where
  "series_add xs ys =
     map (\<lambda>(a, b). case a of None \<Rightarrow> None
                    | Some x \<Rightarrow> (case b of None \<Rightarrow> None | Some y \<Rightarrow> Some (x + y))) (zip xs ys)"

definition series_sub :: "cell list \<Rightarrow> cell list \<Rightarrow> cell list" where
  "series_sub xs ys =
     map (\<lambda>(a, b). case a of None \<Rightarrow> None
                    | Some x \<Rightarrow> (case b of None \<Rightarrow> None | Some y \<Rightarrow> Some (x - y))) (zip xs ys)"

text \<open>\<open>Series.diff()\<close>: the first element has no predecessor and is missing.\<close>

definition series_diff :: "cell list \<Rightarrow> cell list" where
  "series_diff xs = (case xs of [] \<Rightarrow> [] | x # rest \<Rightarrow> None # series_sub rest xs)"

text \<open>The order of numpy's sort on values that are not not-a-number.\<close>

fun fl_le :: "fl \<Rightarrow> fl \<Rightarrow> bool" where
  "fl_le NInf _ = True"
| "fl_le _ PInf = True"
| "fl_le (Fin x) (Fin y) = (x \<le> y)"
| "fl_le _ _ = False"

fun fl_insort :: "fl \<Rightarrow> fl list \<Rightarrow> fl list" where
  "fl_insort x [] = [x]"
| "fl_insort x (y # ys) = (if fl_le x y then x # y # ys else y # fl_insort x ys)"

definition fl_sort :: "fl list \<Rightarrow> fl list" where
  "fl_sort xs = foldr fl_insort xs []"

text \<open>\<open>np.median\<close>: the middle value, or the mean of the two middle values.\<close>

definition np_median :: "fl list \<Rightarrow> fl" where
  "np_median xs =
     (let s = fl_sort xs; n = length s
      in if n = 0 then NaN
         else if odd n then s ! (n div 2)
         else fl_div_pos (fl_add (s ! (n div 2 - 1)) (s ! (n div 2))) 2)"

definition median_over_years :: "fl list \<Rightarrow> nat \<Rightarrow> fl option" where
  "median_over_years series min_years =
     (let s = fl_dropna series
      in if length s < min_years then None else Some (np_median s))"

text \<open>
  \<open>xs[-lookback:]\<close>: the last \<open>lookback\<close> elements for a positive \<open>lookback\<close>; the whole
  list for 0; the list without its first \<open>-lookback\<close> elements for a negative one.
\<close>

definition slice_from_neg :: "int \<Rightarrow> 'a list \<Rightarrow> 'a list" where
  "slice_from_neg k xs =
     (if 0 < k then drop (length xs - nat k) xs else drop (nat (- k)) xs)"

definition lookback_window :: "Frame \<Rightarrow> int \<Rightarrow> int list" where
  "lookback_window inc lookback =
     (if int (length (index inc)) > lookback
      then slice_from_neg lookback (sort (index inc))
      else sort (index inc))"

text \<open>
  \<open>cf.loc[years] if not cf.empty else pd.DataFrame(index=years)\<close>: an empty statement is
  replaced by a frame with the window's labels and no column.
\<close>

definition window_frame :: "Frame \<Rightarrow> int list \<Rightarrow> error + Frame" where
  "window_frame df ys =
     (if \<not> df_empty df then df_loc df ys else Inr \<lparr>index = ys, columns = []\<rparr>)"

text \<open>
  The frames that \<open>compute_historical_metrics\<close> works on when it returns: the income
  statement restricted to the window, and for the other two statements the same
  restriction, or the frame without columns when the statement is empty.
\<close>

definition window_of :: "Frame \<Rightarrow> int list \<Rightarrow> Frame" where
  "window_of df ys = (if df_empty df then \<lparr>index = ys, columns = []\<rparr> else df\<lparr>index := ys\<rparr>)"

text \<open>A ratio metric: the median over the years of numerator over revenue.\<close>

definition ratio_metric :: "cell list option \<Rightarrow> cell list option \<Rightarrow> fl option" where
  "ratio_metric num rev_s =
     (case num of
        None \<Rightarrow> None
      | Some n \<Rightarrow> (case rev_s of
                     None \<Rightarrow> None
                   | Some r \<Rightarrow> median_over_years (series_div n r) 3))"

text \<open>
  The message of the final fallback, with the Greek delta and the arrow of the source
  written in ASCII.
\<close>

definition nwc_fallback_message :: string where
  "nwc_fallback_message =
     ''dNWC unavailable from cash flow and balance sheet -> assume dNWC % revenue = 0.''"

text \<open>
  The three-way choice of the \<open>\<Delta>NWC\<close> share, with what it logs. The branch taken depends
  only on the columns present.
\<close>

definition d_nwc_pct :: "Frame \<Rightarrow> Frame \<Rightarrow> cell list option \<Rightarrow> fl option \<times> log_entry list" where
  "d_nwc_pct cf_lb bs_lb rev_s =
     (if has_col cf_lb ''delta_nwc'' \<and> rev_s \<noteq> None
      then (ratio_metric (df_get cf_lb ''delta_nwc'') rev_s, [])
      else if has_col bs_lb ''current_assets'' \<and> has_col bs_lb ''current_liabilities''
              \<and> rev_s \<noteq> None
      then
        (let nwc = (case df_get bs_lb ''current_assets'' of
                      None \<Rightarrow> None
                    | Some ca \<Rightarrow> (case df_get bs_lb ''current_liabilities'' of
                                    None \<Rightarrow> None
                                  | Some cl \<Rightarrow> Some (series_sub ca cl)));
             d_nwc = map_option series_diff nwc
         in (ratio_metric d_nwc rev_s, []))
      else (Some (Fin 0), log_assumption nwc_fallback_message))"

text \<open>
  \<open>compute_historical_metrics\<close>. Its parameter \<open>min_years\<close> is not used by its body
  (\<open>median_over_years\<close> is always called with its own default, 3) and is left out; so are
  the columns it reads and never uses. A metric that is \<open>None\<close> becomes 0 in the record,
  the EBITDA margin apart.
\<close>

definition or_zero :: "fl option \<Rightarrow> fl" where
  "or_zero m = (case m of None \<Rightarrow> Fin 0 | Some v \<Rightarrow> v)"

definition compute_historical_metrics ::
    "Frame \<Rightarrow> Frame \<Rightarrow> Frame \<Rightarrow> int \<Rightarrow> error + (HistoricalMetrics \<times> log_entry list)" where
  "compute_historical_metrics inc cf bs lookback =
     (if \<not> has_col inc ''revenue'' then Inl ValueError
      else
        let ys = lookback_window inc lookback
        in case df_loc inc ys of
             Inl e \<Rightarrow> Inl e
           | Inr inc_lb \<Rightarrow>
              (case window_frame cf ys of
                 Inl e \<Rightarrow> Inl e
               | Inr cf_lb \<Rightarrow>
                  (case window_frame bs ys of
                     Inl e \<Rightarrow> Inl e
                   | Inr bs_lb \<Rightarrow>
                      (let revenue = df_get inc_lb ''revenue'';
                           ebit = df_get inc_lb ''operating_income'';
                           da = df_get cf_lb ''da'';
                           capex = df_get cf_lb ''capex'';
                           ebit_margin = ratio_metric ebit revenue;
                           ebitda_margin =
                             (case ebit of
                                None \<Rightarrow> None
                              | Some e \<Rightarrow> (case da of
                                             None \<Rightarrow> None
                                           | Some d \<Rightarrow> ratio_metric (Some (series_add e d)) revenue));
                           capex_pct = ratio_metric capex revenue;
                           da_pct = ratio_metric da revenue;
                           nwc = d_nwc_pct cf_lb bs_lb revenue;
                           rev_cagr = (case revenue of None \<Rightarrow> None | Some r \<Rightarrow> compute_cagr r)
                       in Inr (\<lparr>revenue_cagr = (case rev_cagr of None \<Rightarrow> 0 | Some c \<Rightarrow> c),
                                 hm_ebit_margin = or_zero ebit_margin,
                                 hm_ebitda_margin = ebitda_margin,
                                 hm_capex_pct_revenue = or_zero capex_pct,
                                 hm_da_pct_revenue = or_zero da_pct,
                                 hm_d_nwc_pct_revenue = or_zero (fst nwc),
                                 lookback_years = length ys\<rparr>, snd nwc)))))"

section \<open>data_loader.py\<close>

text \<open>
  The label maps are Python dictionaries with distinct keys; the loops visit them in the
  order in which they are written.
\<close>

definition income_label_map :: "(string \<times> string) list" where
  "income_label_map =
     [(''Total Revenue'', ''revenue''),
      (''Revenue'', ''revenue''),
      (''Operating Income'', ''operating_income''),
      (''EBIT'', ''operating_income''),
      (''Ebit'', ''operating_income''),
      (''Income Before Tax'', ''pretax_income''),
      (''Income Tax Expense'', ''tax_expense''),
      (''Provision for income taxes'', ''tax_expense''),
      (''Net Income'', ''net_income''),
      (''Net Income Common Stockholders'', ''net_income'')]"

definition cashflow_label_map :: "(string \<times> string) list" where
  "cashflow_label_map =
     [(''Capital Expenditure'', ''capex''),
      (''Capital Expenditures'', ''capex''),
      (''CapitalExpenditure'', ''capex''),
      (''Depreciation'', ''da''),
      (''Depreciation And Amortization'', ''da''),
      (''Reconciled Depreciation'', ''da''),
      (''Operating Cash Flow'', ''cfo''),
      (''Total Cash From Operating Activities'', ''cfo''),
      (''Change In Working Capital'', ''delta_nwc''),
      (''ChangeInWorkingCapital'', ''delta_nwc'')]"

definition MANDATORY_INCOME :: "string list" where
  "MANDATORY_INCOME =
     [''revenue'', ''operating_income'', ''pretax_income'', ''tax_expense'', ''net_income'']"

definition MANDATORY_CASHFLOW :: "string list" where
  "MANDATORY_CASHFLOW = [''capex'', ''da'', ''cfo'']"

definition MANDATORY_BALANCE :: "string list" where
  "MANDATORY_BALANCE = [''current_liabilities'', ''cash'', ''total_debt'']"

text \<open>
  The canonical vocabulary, as the comments of \<open>NormalizedStatements\<close> list it for the
  three statements.
\<close>

definition canonical_income :: "string list" where
  "canonical_income =
     [''revenue'', ''operating_income'', ''pretax_income'', ''tax_expense'', ''net_income'']"

definition canonical_cashflow :: "string list" where
  "canonical_cashflow = [''capex'', ''da'', ''cfo'', ''delta_nwc'']"

definition canonical_balance :: "string list" where
  "canonical_balance = [''current_assets'', ''current_liabilities'', ''cash'', ''total_debt'']"

text \<open>
  The loop \<open>for raw, norm in label_map.items(): if raw in df.columns: normalized[norm] =
  df[raw]\<close>: a later label of the same canonical name overwrites an earlier one.
\<close>

fun apply_label_map :: "Frame \<Rightarrow> (string \<times> string) list \<Rightarrow> Frame \<Rightarrow> Frame" where
  "apply_label_map src [] normalized = normalized"
| "apply_label_map src ((raw, canon) # rest) normalized =
     apply_label_map src rest
       (case map_of (columns src) raw of
          None \<Rightarrow> normalized
        | Some f \<Rightarrow> set_col normalized canon f)"

definition normalize_income :: "Frame \<Rightarrow> Frame \<times> log_entry list" where
  "normalize_income inc =
     (let normalized = apply_label_map inc income_label_map \<lparr>index = index inc, columns = []\<rparr>
      in (normalized, validate_fields normalized MANDATORY_INCOME ''Income Statement''))"

text \<open>\<open>Series.abs()\<close>: a missing cell stays missing.\<close>

definition abs_col :: "(int \<Rightarrow> cell) \<Rightarrow> (int \<Rightarrow> cell)" where
  "abs_col f = (\<lambda>y. map_option abs (f y))"

definition normalize_cashflow :: "Frame option \<Rightarrow> Frame \<times> log_entry list" where
  "normalize_cashflow cf_opt =
     (case cf_opt of
        None \<Rightarrow> (\<lparr>index = [], columns = []\<rparr>, [])
      | Some cf \<Rightarrow>
          if df_empty cf then (\<lparr>index = [], columns = []\<rparr>, [])
          else
            let normalized = apply_label_map cf cashflow_label_map \<lparr>index = index cf, columns = []\<rparr>;
                signed = (case map_of (columns normalized) ''capex'' of
                            None \<Rightarrow> normalized
                          | Some f \<Rightarrow> set_col normalized ''capex'' (abs_col f))
            in (signed, validate_fields signed MANDATORY_CASHFLOW ''Cash Flow Statement''))"

text \<open>
  The loops \<open>for label in [...]: if label in bs.columns: normalized[c] = bs[label]; break\<close>:
  the first label present wins.
\<close>

fun first_present :: "Frame \<Rightarrow> string list \<Rightarrow> (int \<Rightarrow> cell) option" where
  "first_present src [] = None"
| "first_present src (l # ls) =
     (case map_of (columns src) l of None \<Rightarrow> first_present src ls | Some f \<Rightarrow> Some f)"

definition set_first :: "Frame \<Rightarrow> string list \<Rightarrow> string \<Rightarrow> Frame \<Rightarrow> Frame" where
  "set_first src labels c normalized =
     (case first_present src labels of None \<Rightarrow> normalized | Some f \<Rightarrow> set_col normalized c f)"

definition cell_add :: "cell \<Rightarrow> cell \<Rightarrow> cell" where
  "cell_add a b = (case a of None \<Rightarrow> None
                   | Some x \<Rightarrow> (case b of None \<Rightarrow> None | Some y \<Rightarrow> Some (x + y)))"

text \<open>\<open>sum(debt_parts)\<close>: Python's \<open>sum\<close> starts from 0 and adds the series in order.\<close>

definition sum_cols :: "(int \<Rightarrow> cell) list \<Rightarrow> (int \<Rightarrow> cell)" where
  "sum_cols parts = (\<lambda>y. foldl cell_add (Some 0) (map (\<lambda>f. f y) parts))"

definition col_list :: "Frame \<Rightarrow> string \<Rightarrow> (int \<Rightarrow> cell) list" where
  "col_list src l = (case map_of (columns src) l of None \<Rightarrow> [] | Some f \<Rightarrow> [f])"

definition normalize_balance :: "Frame option \<Rightarrow> Frame \<times> log_entry list" where
  "normalize_balance bs_opt =
     (case bs_opt of
        None \<Rightarrow> (\<lparr>index = [], columns = []\<rparr>, [])
      | Some bs \<Rightarrow>
          if df_empty bs then (\<lparr>index = [], columns = []\<rparr>, [])
          else
            let n0 = \<lparr>index = index bs, columns = []\<rparr>;
                n1 = set_first bs [''Total Current Assets'', ''Current Assets'', ''CurrentAssets'']
                       ''current_assets'' n0;
                n2 = set_first bs [''Total Current Liabilities'', ''Current Liabilities'',
                                    ''CurrentLiabilities'',
                                    ''Current Liabilities Net Minority Interest'']
                       ''current_liabilities'' n1;
                n3 = set_first bs [''Cash And Cash Equivalents'', ''Cash''] ''cash'' n2;
                n4 = (case map_of (columns bs) ''Total Debt'' of
                        Some f \<Rightarrow> set_col n3 ''total_debt'' f
                      | None \<Rightarrow>
                          (let debt_parts = col_list bs ''Short Long Term Debt''
                                              @ col_list bs ''Long Term Debt''
                           in if debt_parts \<noteq> [] then set_col n3 ''total_debt'' (sum_cols debt_parts)
                              else n3))
            in (n4, validate_fields n4 MANDATORY_BALANCE ''Balance Sheet''))"

section \<open>Example inputs\<close>

definition base0 :: Assumptions where
  "base0 = \<lparr>years = 3, revenue_growth = 0.1, ebit_margin = - 0.1, tax_rate = 0.25,
            da_pct_revenue = 0.04, capex_pct_revenue = 0.05, d_nwc_pct_revenue = 0.01,
            terminal_growth = 0.02, use_ebitda_margin = False, ebitda_margin = Some 0.03\<rparr>"

definition row1 :: ForecastRow where
  "row1 = \<lparr>year = 2025, revenue = 1000, ebit = 0, nopat = 0, da = 0, capex = 0, d_nwc = 0,
           fcff = 100\<rparr>"

definition inp_none :: ValuationInputs where
  "inp_none = \<lparr>rf = 0.04, erp = 0.05, beta = 1, cost_of_debt = 0.05, vi_tax_rate = 0.25,
               vi_equity_value = None, net_debt = None\<rparr>"

definition inp_low :: ValuationInputs where
  "inp_low = \<lparr>rf = 0, erp = 0.01, beta = 1, cost_of_debt = 0.05, vi_tax_rate = 0.25,
              vi_equity_value = None, net_debt = None\<rparr>"


definition no_frame :: Frame where
  "no_frame = \<lparr>index = [], columns = []\<rparr>"

definition inc2 :: Frame where
  "inc2 = \<lparr>index = [2021, 2022],
           columns = [(''revenue'', [2021 \<mapsto> 100, 2022 \<mapsto> 100])]\<rparr>"

definition cf2 :: Frame where
  "cf2 = \<lparr>index = [2021, 2022],
          columns = [(''delta_nwc'', [2021 \<mapsto> 10, 2022 \<mapsto> 10])]\<rparr>"

definition bs2 :: Frame where
  "bs2 = \<lparr>index = [2021, 2022],
          columns = [(''cash'', [2021 \<mapsto> 5, 2022 \<mapsto> 6])]\<rparr>"

definition inc4 :: Frame where
  "inc4 = \<lparr>index = [2020, 2021, 2022, 2023],
           columns = [(''revenue'', [2020 \<mapsto> 100, 2021 \<mapsto> 110, 2022 \<mapsto> 121, 2023 \<mapsto> 133.1])]\<rparr>"

definition cf4 :: Frame where
  "cf4 = \<lparr>index = [2020, 2021, 2022, 2023],
          columns = [(''delta_nwc'', [2020 \<mapsto> 10, 2021 \<mapsto> 22, 2022 \<mapsto> 36.3, 2023 \<mapsto> 53.24])]\<rparr>"

definition bs4 :: Frame where
  "bs4 = \<lparr>index = [2020, 2021, 2022, 2023],
          columns = [(''current_assets'', [2020 \<mapsto> 50, 2021 \<mapsto> 61, 2022 \<mapsto> 85.2, 2023 \<mapsto> 125.13]),
                     (''current_liabilities'', [2020 \<mapsto> 0, 2021 \<mapsto> 0, 2022 \<mapsto> 0, 2023 \<mapsto> 0])]\<rparr>"

definition cf4_capex :: Frame where
  "cf4_capex = \<lparr>index = [2020, 2021, 2022, 2023],
                columns = [(''capex'', [2020 \<mapsto> 5, 2021 \<mapsto> 6, 2022 \<mapsto> 7, 2023 \<mapsto> 8])]\<rparr>"

definition bs4_cash :: Frame where
  "bs4_cash = \<lparr>index = [2020, 2021, 2022, 2023],
               columns = [(''cash'', [2020 \<mapsto> 5, 2021 \<mapsto> 6, 2022 \<mapsto> 7, 2023 \<mapsto> 8])]\<rparr>"

definition raw_cf :: Frame where
  "raw_cf = \<lparr>index = [2022, 2023],
             columns = [(''Capital Expenditure'', [2022 \<mapsto> - 50, 2023 \<mapsto> - 60]),
                        (''Operating Cash Flow'', [2022 \<mapsto> 200]),
                        (''Free Cash Flow'', [2022 \<mapsto> 150, 2023 \<mapsto> 140])]\<rparr>"

definition raw_inc :: Frame where
  "raw_inc = \<lparr>index = [2022, 2023],
              columns = [(''Total Revenue'', [2022 \<mapsto> 1000, 2023 \<mapsto> 1100]),
                         (''Gross Profit'', [2022 \<mapsto> 400, 2023 \<mapsto> 450]),
                         (''Net Income'', [2022 \<mapsto> 90, 2023 \<mapsto> 95])]\<rparr>"

definition raw_bs :: Frame where
  "raw_bs = \<lparr>index = [2022, 2023],
             columns = [(''Current Assets'', [2022 \<mapsto> 300, 2023 \<mapsto> 320]),
                        (''Long Term Debt'', [2022 \<mapsto> 500, 2023 \<mapsto> 480]),
                        (''Goodwill'', [2022 \<mapsto> 70, 2023 \<mapsto> 70])]\<rparr>"

section \<open>The forecast\<close>

text \<open>One iteration of the loop, with the pair of EBIT and D&A taken apart.\<close>

lemma forecast_rows_Cons:
  "forecast_rows a rev0 (y # ys) =
     (let revenue = rev0 * (1 + revenue_growth a);
          da = da_pct_revenue a * revenue;
          ebit = (case (use_ebitda_margin a, ebitda_margin a) of
                    (True, Some m) \<Rightarrow> max (m * revenue - da) 0
                  | _ \<Rightarrow> ebit_margin a * revenue);
          nopat = ebit * (1 - tax_rate a);
          capex = capex_pct_revenue a * revenue;
          d_nwc = d_nwc_pct_revenue a * revenue;
          fcff = nopat + da - capex - d_nwc
      in \<lparr>year = y, revenue = revenue, ebit = ebit, nopat = nopat, da = da,
          capex = capex, d_nwc = d_nwc, fcff = fcff\<rparr> # forecast_rows a revenue ys)"
  by (simp add: Let_def split: bool.splits option.splits)

declare forecast_rows.simps(2) [simp del]

lemma forecast_rows_length: "length (forecast_rows a r ys) = length ys"
  by (induction ys arbitrary: r) (simp_all add: forecast_rows_Cons Let_def)

lemma forecast_rows_year: "map year (forecast_rows a r ys) = ys"
  by (induction ys arbitrary: r) (simp_all add: forecast_rows_Cons Let_def)

lemma forecast_rows_revenue:
  "k < length ys \<Longrightarrow> revenue (forecast_rows a r ys ! k) = r * (1 + revenue_growth a) ^ Suc k"
proof (induction ys arbitrary: r k)
  case Nil
  then show ?case by simp
next
  case (Cons y ys)
  show ?case
  proof (cases k)
    case 0
    then show ?thesis by (simp add: forecast_rows_Cons Let_def)
  next
    case (Suc j)
    with Cons.prems have "j < length ys" by simp
    from Cons.IH [OF this] Suc show ?thesis by (simp add: forecast_rows_Cons Let_def mult.assoc)
  qed
qed

lemma forecast_years_shift: "map (\<lambda>i. Y + i) [1 .. n] = [Y + 1 .. Y + n]"
proof (induction "nat n" arbitrary: n)
  case 0
  then show ?case by simp
next
  case (Suc k)
  then have n: "1 \<le> n" "k = nat (n - 1)" by linarith+
  have a: "[1 .. n] = [1 .. n - 1] @ [n]"
    using n(1) upto_rec2 [of 1 n] by simp
  have b: "[Y + 1 .. Y + n] = [Y + 1 .. Y + (n - 1)] @ [Y + n]"
    using n(1) upto_rec2 [of "Y + 1" "Y + n"] by (simp add: algebra_simps)
  show ?case using Suc.hyps(1) [OF n(2)] a b by simp
qed

lemma forecast_rows_ebit:
  assumes "r \<in> set (forecast_rows a r0 ys)"
  shows "da r = da_pct_revenue a * revenue r
       \<and> ebit r = (case (use_ebitda_margin a, ebitda_margin a) of
                     (True, Some m) \<Rightarrow> max (m * revenue r - da r) 0
                   | _ \<Rightarrow> ebit_margin a * revenue r)"
  using assms
  by (induction ys arbitrary: r0) (auto simp: forecast_rows_Cons Let_def split: bool.splits option.splits)

text \<open>
  C2. For a horizon \<open>years \<ge> 1\<close>, \<open>build_forecast\<close> returns exactly \<open>years\<close> rows, keyed
  by the consecutive years \<open>Y + 1, \<dots>, Y + years\<close> in ascending order, and the revenue of
  the \<open>i\<close>-th forecast year is \<open>R * (1 + g) ^ i\<close>: each year grows the revenue projected
  for the year before.
\<close>

theorem build_forecast_rows:
  assumes "1 \<le> years a"
  shows "\<exists>rows. build_forecast Y R a = Inr rows
           \<and> length rows = nat (years a)
           \<and> map year rows = [Y + 1 .. Y + years a]
           \<and> (\<forall>i. 1 \<le> i \<and> i \<le> nat (years a) \<longrightarrow>
                 revenue (rows ! (i - 1)) = R * (1 + revenue_growth a) ^ i)"
proof -
  let ?ys = "map (\<lambda>i. Y + i) [1 .. years a]"
  let ?rows = "forecast_rows a R ?ys"
  have len: "length ?rows = nat (years a)"
    by (simp add: forecast_rows_length)
  with assms have ne: "?rows \<noteq> []" by auto
  have bf: "build_forecast Y R a = Inr ?rows"
    using ne by (simp add: build_forecast_def forecast_rows_Cons Let_def)
  have yrs: "map year ?rows = [Y + 1 .. Y + years a]"
    by (simp only: forecast_rows_year forecast_years_shift)
  have rev: "revenue (?rows ! (i - 1)) = R * (1 + revenue_growth a) ^ i"
    if "1 \<le> i" "i \<le> nat (years a)" for i
  proof -
    from that have "i - 1 < length ?ys" by simp
    from forecast_rows_revenue [OF this, of a R] that(1) show ?thesis by simp
  qed
  from bf len yrs rev show ?thesis by blast
qed

theorem build_forecast_rows_witness:
  "1 \<le> years base0
   \<and> (\<exists>rows. build_forecast 2024 100 base0 = Inr rows
        \<and> length rows = 3
        \<and> map year rows = [2025, 2026, 2027]
        \<and> revenue (rows ! 0) = 110 \<and> revenue (rows ! 1) = 121 \<and> revenue (rows ! 2) = 133.1)"
proof -
  have h: "1 \<le> years base0" by (simp add: base0_def)
  have u: "[2025 .. 2027 :: int] = [2025, 2026, 2027]" by (simp add: upto.simps)
  from build_forecast_rows [OF h, of 2024 100] obtain rows where
    r: "build_forecast 2024 100 base0 = Inr rows" "length rows = nat (years base0)"
       "map year rows = [2024 + 1 .. 2024 + years base0]"
       "\<forall>i. 1 \<le> i \<and> i \<le> nat (years base0) \<longrightarrow>
              revenue (rows ! (i - 1)) = 100 * (1 + revenue_growth base0) ^ i"
    by blast
  have "revenue (rows ! 0) = 110" using r(4) [rule_format, of 1] by (simp add: base0_def)
  moreover have "revenue (rows ! 1) = 121"
    using r(4) [rule_format, of 2] by (simp add: base0_def power2_eq_square)
  moreover have "revenue (rows ! 2) = 133.1"
    using r(4) [rule_format, of 3] by (simp add: base0_def power3_eq_cube)
  ultimately show ?thesis using h r(1,2,3) u by (auto simp: base0_def)
qed

text \<open>
  C9. In EBIT-margin mode the row's EBIT is the margin times the revenue with no floor: a
  negative margin gives negative EBIT in every row, where EBIT cannot go negative. The
  other branch of the same conditional floors EBIT at 0: on the same input with EBITDA
  mode switched on (EBITDA margin 3%, D&A 4% of revenue) every row's EBIT is 0.
\<close>

theorem build_forecast_negative_ebit:
  "use_ebitda_margin base0 = False
   \<and> map_sum id (map ebit) (build_forecast 2024 100 base0) = Inr [- 11, - 12.1, - 13.31]
   \<and> map_sum id (map ebit) (build_forecast 2024 100 (base0\<lparr>use_ebitda_margin := True\<rparr>))
       = Inr [0, 0, 0]"
  by (simp add: build_forecast_def base0_def upto.simps forecast_rows_Cons Let_def)

section \<open>Scenario presets\<close>

text \<open>
  C5, as the claim states it, fails on the \<open>\<Delta>NWC\<close> share: the shift is 0.3 percentage
  points in both variants, not 0.5.
\<close>

theorem scenario_presets_d_nwc_shift:
  "d_nwc_pct_revenue (Bull (scenario_presets base0)) = 0.007
   \<and> d_nwc_pct_revenue (Bull (scenario_presets base0)) \<noteq> max (d_nwc_pct_revenue base0 - 0.005) 0
   \<and> d_nwc_pct_revenue (Bear (scenario_presets base0)) = 0.013
   \<and> d_nwc_pct_revenue (Bear (scenario_presets base0)) \<noteq> d_nwc_pct_revenue base0 + 0.005"
  by (simp add: scenario_presets_def base0_def)

text \<open>
  C5, amended. Bull adds 3pp to revenue growth, 3pp to EBIT margin capped at 40%, takes
  0.5pp from D&A% and CapEx% and 0.3pp from \<open>\<Delta>NWC%\<close>, each floored at 0, adds 0.5pp to
  terminal growth and 2pp to the EBITDA margin when it is defined. Bear takes 3pp from
  revenue growth floored at -10%, 3pp from EBIT margin floored at 0, adds 0.5pp to D&A% and
  CapEx% and 0.3pp to \<open>\<Delta>NWC%\<close>, takes 0.5pp from terminal growth floored at 0 and 2pp from
  the EBITDA margin when it is defined. Tax rate, horizon and the margin mode are those of
  Base in both variants.
\<close>

theorem scenario_presets_shifts:
  "Base (scenario_presets b) = b
   \<and> revenue_growth (Bull (scenario_presets b)) = revenue_growth b + 3 / 100
   \<and> ebit_margin (Bull (scenario_presets b)) = min (ebit_margin b + 3 / 100) (40 / 100)
   \<and> da_pct_revenue (Bull (scenario_presets b)) = max (da_pct_revenue b - 5 / 1000) 0
   \<and> capex_pct_revenue (Bull (scenario_presets b)) = max (capex_pct_revenue b - 5 / 1000) 0
   \<and> d_nwc_pct_revenue (Bull (scenario_presets b)) = max (d_nwc_pct_revenue b - 3 / 1000) 0
   \<and> terminal_growth (Bull (scenario_presets b)) = terminal_growth b + 5 / 1000
   \<and> ebitda_margin (Bull (scenario_presets b)) = map_option (\<lambda>m. m + 2 / 100) (ebitda_margin b)
   \<and> tax_rate (Bull (scenario_presets b)) = tax_rate b
   \<and> years (Bull (scenario_presets b)) = years b
   \<and> use_ebitda_margin (Bull (scenario_presets b)) = use_ebitda_margin b
   \<and> revenue_growth (Bear (scenario_presets b)) = max (revenue_growth b - 3 / 100) (- (10 / 100))
   \<and> ebit_margin (Bear (scenario_presets b)) = max (ebit_margin b - 3 / 100) 0
   \<and> da_pct_revenue (Bear (scenario_presets b)) = da_pct_revenue b + 5 / 1000
   \<and> capex_pct_revenue (Bear (scenario_presets b)) = capex_pct_revenue b + 5 / 1000
   \<and> d_nwc_pct_revenue (Bear (scenario_presets b)) = d_nwc_pct_revenue b + 3 / 1000
   \<and> terminal_growth (Bear (scenario_presets b)) = max (terminal_growth b - 5 / 1000) 0
   \<and> ebitda_margin (Bear (scenario_presets b)) = map_option (\<lambda>m. m - 2 / 100) (ebitda_margin b)
   \<and> tax_rate (Bear (scenario_presets b)) = tax_rate b
   \<and> years (Bear (scenario_presets b)) = years b
   \<and> use_ebitda_margin (Bear (scenario_presets b)) = use_ebitda_margin b"
  by (cases "ebitda_margin b") (simp_all add: scenario_presets_def)

section \<open>Terminal value\<close>

lemma terminal_gordon_low:
  "w \<le> g \<Longrightarrow> terminal_gordon k df w g = Inl ValueError"
  by (simp add: terminal_gordon_def)

lemma terminal_gordon_value:
  assumes "g < w" "df \<noteq> []" "1 + w \<noteq> 0"
  shows "terminal_gordon k df w g
           = Inr (Fin (fcff (last df) * (1 + g) / (w - g) / (1 + w) ^ length df))"
  using assms by (simp add: terminal_gordon_def Let_def np_div_def)

text \<open>
  C1, as the claim states it, fails at a WACC of -100%: the discount factor \<open>(1 + w) ^ N\<close>
  is zero there, and the Python float division raises \<open>ZeroDivisionError\<close> although
  \<open>w > g\<close>.
\<close>

theorem terminal_gordon_zero_division:
  "(- 2 :: real) < - 1 \<and> terminal_gordon PyFloat [row1] (- 1) (- 2) = Inl ZeroDivisionError"
  by (simp add: terminal_gordon_def row1_def)

text \<open>
  C1, amended. For a forecast with at least one row and last-year FCFF \<open>F\<close>: if \<open>w > g\<close>
  and \<open>w \<noteq> -1\<close>, \<open>terminal_gordon\<close> returns \<open>F * (1 + g) / (w - g)\<close> divided by
  \<open>(1 + w) ^ N\<close>, \<open>N\<close> the number of forecast rows; if \<open>w > g\<close> and \<open>w = -1\<close>, the call
  on Python floats raises \<open>ZeroDivisionError\<close>; and if \<open>w \<le> g\<close> it raises \<open>ValueError\<close>.
\<close>

theorem terminal_gordon_spec:
  assumes "df \<noteq> []"
  shows "(g < w \<and> w \<noteq> - 1 \<longrightarrow>
            terminal_gordon k df w g
              = Inr (Fin (fcff (last df) * (1 + g) / (w - g) / (1 + w) ^ length df)))
       \<and> (g < w \<and> w = - 1 \<longrightarrow> terminal_gordon PyFloat df w g = Inl ZeroDivisionError)
       \<and> (w \<le> g \<longrightarrow> terminal_gordon k df w g = Inl ValueError)"
proof -
  have "1 + w \<noteq> 0" if "w \<noteq> - 1" using that by linarith
  then show ?thesis
    using assms terminal_gordon_value [of g w df k] terminal_gordon_low [of w g k df]
    by (auto simp: terminal_gordon_def)
qed

theorem terminal_gordon_spec_witness:
  "[row1] \<noteq> []
   \<and> (0.02 :: real) < 0.09 \<and> (0.09 :: real) \<noteq> - 1
   \<and> terminal_gordon PyFloat [row1] 0.09 0.02 = Inr (Fin (100 * 1.02 / 0.07 / 1.09 ^ 1))
   \<and> (- 2 :: real) < - 1
   \<and> terminal_gordon PyFloat [row1] (- 1) (- 2) = Inl ZeroDivisionError
   \<and> (0.02 :: real) \<le> 0.02
   \<and> terminal_gordon PyFloat [row1] 0.02 0.02 = Inl ValueError"
  using terminal_gordon_spec [of "[row1]" "0.02" "0.09" PyFloat]
        terminal_gordon_spec [of "[row1]" "- 2" "- 1" PyFloat]
        terminal_gordon_spec [of "[row1]" "0.02" "0.02" PyFloat]
  by (simp add: row1_def)

section \<open>The valuation\<close>

lemma terminal_gordon_py_cases:
  "terminal_gordon PyFloat df w g =
     (if w \<le> g then Inl ValueError
      else if df = [] then Inl IndexError
      else if 1 + w = 0 then Inl ZeroDivisionError
      else Inr (Fin (fcff (last df) * (1 + g) / (w - g) / (1 + w) ^ length df)))"
  by (simp add: terminal_gordon_def Let_def np_div_def)

lemma sens_rows_keys:
  "map (\<lambda>(w, g, v). (w, g)) (sens_rows df ws gs) = List.product ws gs"
  by (induction ws) (simp_all add: sens_rows_def comp_def)

lemma sens_rows_lookup:
  assumes "w \<in> set ws" "g \<in> set gs"
  shows "map_of (map (\<lambda>(w, g, v). ((w, g), v)) (sens_rows df ws gs)) (w, g)
           = Some (sens_cell df w g)"
proof -
  have "map (\<lambda>(w, g, v). ((w, g), v)) (sens_rows df ws gs)
          = map (\<lambda>k. (k, sens_cell df (fst k) (snd k))) (List.product ws gs)"
    by (induction ws) (simp_all add: sens_rows_def comp_def)
  moreover have "(w, g) \<in> set (List.product ws gs)" using assms by simp
  ultimately show ?thesis by (simp add: map_of_map_restrict)
qed

lemma product_fst_set: "ws \<noteq> [] \<Longrightarrow> gs \<noteq> [] \<Longrightarrow> set (map fst (List.product ws gs)) = set ws"
  by (cases gs) (auto simp: image_iff)

lemma product_snd_set: "ws \<noteq> [] \<Longrightarrow> gs \<noteq> [] \<Longrightarrow> set (map snd (List.product ws gs)) = set gs"
  by (cases ws) (auto simp: image_iff)

lemma sort_remdups_eq:
  "set xs = set ys \<Longrightarrow> distinct ys \<Longrightarrow> sort (remdups xs) = sort (ys :: real list)"
  by (metis distinct_remdups set_remdups sorted_distinct_set_unique sorted_sort distinct_sort
      set_sort)

lemma distinct_product_iff:
  assumes "ws \<noteq> []" "gs \<noteq> []"
  shows "distinct (List.product ws gs) \<longleftrightarrow> distinct ws \<and> distinct gs"
proof
  assume d: "distinct (List.product ws gs)"
  have "distinct ws"
  proof (rule ccontr)
    assume "\<not> distinct ws"
    then obtain as bs cs x where ws: "ws = as @ [x] @ bs @ [x] @ cs"
      using not_distinct_decomp by blast
    obtain g gs' where gs: "gs = g # gs'" using assms(2) by (cases gs) auto
    have "\<not> distinct (List.product ws gs)"
      unfolding ws gs by (auto simp: List.product_concat_map)
    with d show False by simp
  qed
  moreover have "distinct gs"
  proof (rule ccontr)
    assume n: "\<not> distinct gs"
    obtain w ws' where ws: "ws = w # ws'" using assms(1) by (cases ws) auto
    have "\<not> distinct (map (Pair w) gs)" using n
      by (simp add: distinct_map inj_on_def)
    then have "\<not> distinct (List.product ws gs)" unfolding ws by simp
    with d show False by simp
  qed
  ultimately show "distinct ws \<and> distinct gs" by simp
next
  assume "distinct ws \<and> distinct gs"
  then show "distinct (List.product ws gs)" by (simp add: distinct_product)
qed

lemma pivot_sens_rows:
  assumes "ws \<noteq> []" "gs \<noteq> []"
  shows "pivot (sens_rows df ws gs) =
     (if distinct ws \<and> distinct gs
      then Inr \<lparr>s_index = sort ws, s_columns = sort gs,
                s_values = map (\<lambda>w. map (\<lambda>g. sens_cell df w g) (sort gs)) (sort ws)\<rparr>
      else Inl ValueError)"
proof -
  let ?rows = "sens_rows df ws gs"
  have keys: "map (\<lambda>(w, g, v). (w, g)) ?rows = List.product ws gs" by (rule sens_rows_keys)
  have ne: "?rows \<noteq> []"
  proof
    assume "?rows = []"
    then have "List.product ws gs = []" using keys by simp
    then have "set ws \<times> set gs = {}" by (metis set_product set_empty)
    with assms show False by auto
  qed
  note dist = distinct_product_iff [OF assms]
  show ?thesis
  proof (cases "distinct ws \<and> distinct gs")
    case False
    then show ?thesis using ne keys dist by (simp add: pivot_def Let_def)
  next
    case True
    have a: "sort (remdups (map fst (List.product ws gs))) = sort ws"
      using product_fst_set [OF assms] True by (intro sort_remdups_eq) auto
    have b: "sort (remdups (map snd (List.product ws gs))) = sort gs"
      using product_snd_set [OF assms] True by (intro sort_remdups_eq) auto
    have c: "map (\<lambda>w. map (\<lambda>g. case map_of (map (\<lambda>(w, g, v). ((w, g), v)) ?rows) (w, g) of
                                   None \<Rightarrow> NaN | Some v \<Rightarrow> v) (sort gs)) (sort ws)
           = map (\<lambda>w. map (\<lambda>g. sens_cell df w g) (sort gs)) (sort ws)"
      by (intro map_cong refl) (simp add: sens_rows_lookup)
    show ?thesis using True ne keys dist a b c by (simp add: pivot_def Let_def)
  qed
qed

lemma wacc_range_length: "length (wacc_range w) = 5"
  by (simp add: wacc_range_def linspace_def)

lemma g_range_length: "length (g_range g) = 5"
  by (simp add: g_range_def linspace_def)

lemma sens_cell_cases:
  "sens_cell df w g =
     (if w \<le> g then NaN
      else if df = [] then NaN
      else fl_add (discount_cashflows df w)
             (np_div (fcff (last df) * (1 + g) / (w - g)) ((1 + w) ^ length df)))"
  by (simp add: sens_cell_def terminal_gordon_def Let_def)

text \<open>Every way \<open>run_dcf\<close> can end, in the order in which the code reaches it.\<close>

lemma run_dcf_cases:
  "run_dcf df inp ew dw g so em ex =
     (let w = compute_wacc inp ew dw;
          tv = Fin (fcff (last df) * (1 + g) / (w - g) / (1 + w) ^ length df);
          ev = fl_add (discount_cashflows df w) tv;
          eq = (case net_debt inp of None \<Rightarrow> None | Some nd \<Rightarrow> Some (fl_sub ev (Fin nd)))
      in if w \<le> g then Inl ValueError
         else if df = [] then Inl IndexError
         else if 1 + w = 0 then Inl ZeroDivisionError
         else if em \<noteq> None \<and> ex = Some [] then Inl IndexError
         else if \<not> (distinct (wacc_range w) \<and> distinct (g_range g)) then Inl ValueError
         else Inr (\<lparr>wacc = w, pv_fcff = discount_cashflows df w, terminal_value = tv,
                    enterprise_value = ev, equity_value = eq,
                    intrinsic_per_share =
                      (case eq of None \<Rightarrow> None
                       | Some e \<Rightarrow> (case so of None \<Rightarrow> None
                                    | Some s \<Rightarrow> if 0 < s then Some (fl_div_pos e s) else None)),
                    shares_outstanding = so,
                    sensitivity =
                      \<lparr>s_index = sort (wacc_range w), s_columns = sort (g_range g),
                       s_values = map (\<lambda>w'. map (\<lambda>g'. sens_cell df w' g') (sort (g_range g)))
                                    (sort (wacc_range w))\<rparr>\<rparr>,
                   (case (em, ex) of
                      (Some m, Some series) \<Rightarrow>
                        [ExitMultipleInfo (last series * m / (1 + w) ^ length df)]
                    | _ \<Rightarrow> [])))"
proof -
  have wne: "wacc_range w \<noteq> []" for w using wacc_range_length [of w] by auto
  have gne: "g_range g \<noteq> []" using g_range_length [of g] by auto
  show ?thesis
    by (cases em; cases ex)
      (auto simp: run_dcf_def Let_def terminal_gordon_py_cases exit_multiple_check_def
        pivot_sens_rows [OF wne gne] split: option.splits)
qed

lemma wacc_range_example: "wacc_range (9 / 100) = [0.07, 0.08, 0.09, 0.1, 0.11]"
  by (simp add: wacc_range_def linspace_def np_round4_def rint_def upt_rec Let_def)

lemma g_range_example: "g_range (1 / 50) = [0.01, 0.015, 0.02, 0.025, 0.03]"
  by (simp add: g_range_def linspace_def np_round4_def rint_def upt_rec Let_def)

lemma wacc_range_degenerate: "wacc_range (1 / 100) = [0.03, 0.03, 0.03, 0.03, 0.03]"
  by (simp add: wacc_range_def linspace_def np_round4_def rint_def upt_rec Let_def)

text \<open>
  The sensitivity table of a call that returns: five distinct WACC labels and five distinct
  growth labels, the rounded sample points in ascending order, and 25 cells, the cell of
  \<open>(w, g)\<close> not-a-number where \<open>w \<le> g\<close> and the recomputed enterprise value elsewhere.
\<close>

lemma run_dcf_sensitivity_grid:
  assumes "run_dcf df inp ew dw g so em ex = Inr (res, lg)"
  shows "s_index (sensitivity res) = sort (wacc_range (compute_wacc inp ew dw))"
    and "s_columns (sensitivity res) = sort (g_range g)"
    and "length (s_index (sensitivity res)) = 5" and "distinct (s_index (sensitivity res))"
    and "length (s_columns (sensitivity res)) = 5" and "distinct (s_columns (sensitivity res))"
    and "length (s_values (sensitivity res)) = 5"
    and "\<forall>row \<in> set (s_values (sensitivity res)). length row = 5"
    and "\<forall>i < 5. \<forall>j < 5. s_values (sensitivity res) ! i ! j
           = sens_cell df (s_index (sensitivity res) ! i) (s_columns (sensitivity res) ! j)"
proof -
  let ?w = "compute_wacc inp ew dw"
  from assms have d: "distinct (wacc_range ?w)" "distinct (g_range g)"
    and s: "sensitivity res =
             \<lparr>s_index = sort (wacc_range ?w), s_columns = sort (g_range g),
              s_values = map (\<lambda>w'. map (\<lambda>g'. sens_cell df w' g') (sort (g_range g)))
                           (sort (wacc_range ?w))\<rparr>"
    by (auto simp: run_dcf_cases Let_def split: if_splits)
  show "s_index (sensitivity res) = sort (wacc_range ?w)"
    and "s_columns (sensitivity res) = sort (g_range g)"
    and "length (s_index (sensitivity res)) = 5" and "distinct (s_index (sensitivity res))"
    and "length (s_columns (sensitivity res)) = 5" and "distinct (s_columns (sensitivity res))"
    and "length (s_values (sensitivity res)) = 5"
    and "\<forall>row \<in> set (s_values (sensitivity res)). length row = 5"
    using d by (auto simp: s wacc_range_length g_range_length)
  show "\<forall>i < 5. \<forall>j < 5. s_values (sensitivity res) ! i ! j
           = sens_cell df (s_index (sensitivity res) ! i) (s_columns (sensitivity res) ! j)"
    by (simp add: s wacc_range_length g_range_length)
qed

text \<open>
  C7. A valuation with a WACC of 1% and a terminal growth of 0 is valid (\<open>w > g\<close>, the
  terminal value is computed), but the five WACC sample points over \<open>[max(w - 0.02, 0.03),
  w + 0.02] = [0.03, 0.03]\<close> all round to 0.03, the pivot meets duplicate \<open>(wacc, g)\<close>
  entries and \<open>run_dcf\<close> raises \<open>ValueError\<close>: no grid is produced.
\<close>

theorem run_dcf_degenerate_grid:
  "compute_wacc inp_low 1 0 = 0.01
   \<and> terminal_gordon PyFloat [row1] 0.01 0 = Inr (Fin (100 * (1 + 0) / (0.01 - 0) / (1 + 0.01) ^ 1))
   \<and> wacc_range 0.01 = [0.03, 0.03, 0.03, 0.03, 0.03]
   \<and> run_dcf [row1] inp_low 1 0 0 None None None = Inl ValueError"
proof -
  have w: "compute_wacc inp_low 1 0 = 0.01"
    by (simp add: compute_wacc_def inp_low_def)
  have t: "terminal_gordon PyFloat [row1] 0.01 0
             = Inr (Fin (100 * (1 + 0) / (0.01 - 0) / (1 + 0.01) ^ 1))"
    by (simp add: terminal_gordon_py_cases row1_def)
  have r: "run_dcf [row1] inp_low 1 0 0 None None None = Inl ValueError"
    by (simp add: run_dcf_cases w wacc_range_degenerate Let_def)
  from w t r wacc_range_degenerate show ?thesis by simp
qed

text \<open>
  C10. In the result of every \<open>run_dcf\<close> call that returns: if the inputs' net debt is
  \<open>None\<close>, the equity value and the intrinsic value per share are \<open>None\<close>, whatever share
  count is supplied; WACC, the present value of the cash flows, the terminal value, the
  enterprise value and the sensitivity table are the computed ones; the intrinsic value
  per share is defined exactly when net debt is known and the share count is positive.
  The same call without net debt returns as well, with the same result up to the two
  \<open>None\<close> fields.
\<close>

theorem run_dcf_net_debt:
  assumes "run_dcf df inp ew dw g so em ex = Inr (res, lg)"
  shows "(net_debt inp = None \<longrightarrow> equity_value res = None \<and> intrinsic_per_share res = None)
       \<and> wacc res = compute_wacc inp ew dw
       \<and> pv_fcff res = discount_cashflows df (wacc res)
       \<and> terminal_gordon PyFloat df (wacc res) g = Inr (terminal_value res)
       \<and> enterprise_value res = fl_add (pv_fcff res) (terminal_value res)
       \<and> pivot (sens_rows df (wacc_range (wacc res)) (g_range g)) = Inr (sensitivity res)
       \<and> (intrinsic_per_share res \<noteq> None \<longleftrightarrow> net_debt inp \<noteq> None \<and> (\<exists>s. so = Some s \<and> 0 < s))
       \<and> run_dcf df (inp\<lparr>net_debt := None\<rparr>) ew dw g so em ex
           = Inr (res\<lparr>equity_value := None, intrinsic_per_share := None\<rparr>, lg)"
proof -
  have wne: "wacc_range w \<noteq> []" for w using wacc_range_length [of w] by auto
  have gne: "g_range g \<noteq> []" using g_range_length [of g] by auto
  have cw: "compute_wacc (inp\<lparr>net_debt := None\<rparr>) ew dw = compute_wacc inp ew dw"
    by (simp add: compute_wacc_def)
  from assms show ?thesis
    by (auto simp: run_dcf_cases cw Let_def terminal_gordon_py_cases
          pivot_sens_rows [OF wne gne] split: if_splits option.splits)
qed

theorem run_dcf_net_debt_witness:
  "(\<exists>res lg. run_dcf [row1] inp_none 1 0 0.02 (Some 10) None None = Inr (res, lg)
      \<and> net_debt inp_none = None
      \<and> equity_value res = None \<and> intrinsic_per_share res = None
      \<and> wacc res = 0.09
      \<and> pv_fcff res = Fin (100 / 1.09)
      \<and> terminal_value res = Fin (100 * 1.02 / 0.07 / 1.09)
      \<and> enterprise_value res = Fin (100 / 1.09 + 100 * 1.02 / 0.07 / 1.09)
      \<and> s_index (sensitivity res) = [0.07, 0.08, 0.09, 0.1, 0.11]
      \<and> s_columns (sensitivity res) = [0.01, 0.015, 0.02, 0.025, 0.03])
   \<and> (\<exists>res lg. run_dcf [row1] (inp_none\<lparr>net_debt := Some 50\<rparr>) 1 0 0.02 (Some 10) None None
                  = Inr (res, lg)
      \<and> net_debt (inp_none\<lparr>net_debt := Some 50\<rparr>) \<noteq> None \<and> (\<exists>s. Some (10 :: real) = Some s \<and> 0 < s)
      \<and> intrinsic_per_share res \<noteq> None)"
proof -
  have w: "compute_wacc inp_none 1 0 = 0.09" "compute_wacc (inp_none\<lparr>net_debt := Some 50\<rparr>) 1 0 = 0.09"
    by (simp_all add: compute_wacc_def inp_none_def)
  have pv: "discount_cashflows [row1] 0.09 = Fin (100 / 1.09)"
    by (simp add: discount_cashflows_def fl_sum_def np_div_def row1_def)
  obtain res lg where r: "run_dcf [row1] inp_none 1 0 0.02 (Some 10) None None = Inr (res, lg)"
    by (simp add: run_dcf_cases w wacc_range_example g_range_example Let_def)
  obtain res' lg' where r': "run_dcf [row1] (inp_none\<lparr>net_debt := Some 50\<rparr>) 1 0 0.02
      (Some 10) None None = Inr (res', lg')"
    by (simp add: run_dcf_cases w wacc_range_example g_range_example Let_def)
  have n: "net_debt inp_none = None" by (simp add: inp_none_def)
  note a = run_dcf_net_debt [OF r] run_dcf_net_debt [OF r']
  have wr: "wacc res = compute_wacc inp_none 1 0" using a(1) by blast
  have w9: "wacc res = 0.09" by (simp only: wr w)
  have pr: "pv_fcff res = discount_cashflows [row1] (wacc res)" using a(1) by blast
  have p: "pv_fcff res = Fin (100 / 1.09)" by (simp only: pr w9 pv)
  have tg: "terminal_gordon PyFloat [row1] (wacc res) 0.02 = Inr (terminal_value res)"
    using a(1) by blast
  have tg9: "terminal_gordon PyFloat [row1] 0.09 0.02 = Inr (Fin (100 * 1.02 / 0.07 / 1.09))"
    by (simp add: terminal_gordon_py_cases row1_def)
  have "Inr (terminal_value res) = Inr (Fin (100 * 1.02 / 0.07 / 1.09))"
    using tg [unfolded w9] tg9 by simp
  then have t: "terminal_value res = Fin (100 * 1.02 / 0.07 / 1.09)" by (simp only: sum.inject)
  have s: "s_index (sensitivity res) = [0.07, 0.08, 0.09, 0.1, 0.11]"
          "s_columns (sensitivity res) = [0.01, 0.015, 0.02, 0.025, 0.03]"
    using run_dcf_sensitivity_grid(1,2) [OF r]
    by (simp_all add: w wacc_range_example g_range_example)
  have er: "enterprise_value res = fl_add (pv_fcff res) (terminal_value res)" using a(1) by blast
  have e: "enterprise_value res = Fin (100 / 1.09 + 100 * 1.02 / 0.07 / 1.09)"
    by (simp only: er p t fl_add.simps)
  have none: "equity_value res = None \<and> intrinsic_per_share res = None" using a(1) n by blast
  have some: "intrinsic_per_share res' \<noteq> None" using a(2) by (simp add: inp_none_def)
  have k: "net_debt (inp_none\<lparr>net_debt := Some 50\<rparr>) \<noteq> None \<and> (\<exists>s. Some (10 :: real) = Some s \<and> 0 < s)"
    by simp
  from r r' n w9 p t e s none some k show ?thesis by blast
qed

section \<open>Historical metrics\<close>

lemma lookback_window_subset: "set (lookback_window inc lookback) \<subseteq> set (index inc)"
proof -
  have "set (drop n (sort xs)) \<subseteq> set xs" for n and xs :: "int list"
    using set_drop_subset [of n "sort xs"] by simp
  then show ?thesis by (simp add: lookback_window_def slice_from_neg_def)
qed


lemma has_col_map_of: "has_col df c \<longleftrightarrow> map_of (columns df) c \<noteq> None"
  by (simp add: has_col_def map_of_eq_None_iff)

lemma has_col_df_get: "has_col df c \<longleftrightarrow> df_get df c \<noteq> None"
  by (simp add: has_col_map_of df_get_def split: option.splits)

lemma has_col_reindex [simp]: "has_col (df\<lparr>index := ys\<rparr>) c = has_col df c"
  by (simp add: has_col_def)

lemma no_col [simp]: "\<not> has_col \<lparr>index = ys, columns = []\<rparr> c"
  by (simp add: has_col_def)

lemma df_get_no_col [simp]: "df_get \<lparr>index = ys, columns = []\<rparr> c = None"
  by (simp add: df_get_def)

lemma median_over_years_Nil [simp]: "median_over_years [] 3 = None"
  by (simp add: median_over_years_def fl_dropna_def)

lemma series_Nil [simp]:
  "series_div [] ys = []" "series_add [] ys = []" "series_sub [] ys = []" "series_diff [] = []"
  by (simp_all add: series_div_def series_add_def series_sub_def series_diff_def)


lemma compute_cagr_Nil [simp]: "compute_cagr [] = None"
  by (simp add: compute_cagr_def dropna_def)

lemma compute_historical_metrics_Inr:
  assumes "compute_historical_metrics inc cf bs lookback = Inr (hm, lg)"
  defines "ys \<equiv> lookback_window inc lookback"
  defines "rv \<equiv> df_get (inc\<lparr>index := ys\<rparr>) ''revenue''"
  shows "has_col inc ''revenue''"
    and "rv \<noteq> None"
    and "revenue_cagr hm = (case (case rv of None \<Rightarrow> None | Some r \<Rightarrow> compute_cagr r) of
                              None \<Rightarrow> 0 | Some c \<Rightarrow> c)"
    and "hm_d_nwc_pct_revenue hm = or_zero (fst (d_nwc_pct (window_of cf ys) (window_of bs ys) rv))"
    and "lg = snd (d_nwc_pct (window_of cf ys) (window_of bs ys) rv)"
    and "lookback_years hm = length ys"
proof -
  from assms(1) show hc: "has_col inc ''revenue''"
    by (auto simp: compute_historical_metrics_def split: if_splits)
  then show "rv \<noteq> None"
    unfolding rv_def using has_col_df_get [of "inc\<lparr>index := ys\<rparr>" "''revenue''"] by simp
  have li: "df_loc inc ys = Inr (inc\<lparr>index := ys\<rparr>)"
    unfolding ys_def using lookback_window_subset [of inc lookback] by (simp add: df_loc_def)
  have wf: "window_frame df ys = Inr fr \<Longrightarrow> fr = window_of df ys" for df fr
    by (auto simp: window_frame_def window_of_def df_loc_def split: if_splits)
  from assms(1) hc li obtain cf_lb bs_lb where
    w: "window_frame cf ys = Inr cf_lb" "window_frame bs ys = Inr bs_lb"
    by (auto simp: compute_historical_metrics_def Let_def ys_def [symmetric] split: sum.splits)
  from wf [OF w(1)] wf [OF w(2)] have e: "cf_lb = window_of cf ys" "bs_lb = window_of bs ys"
    by simp_all
  from assms(1) hc li w e
  show "revenue_cagr hm = (case (case rv of None \<Rightarrow> None | Some r \<Rightarrow> compute_cagr r) of
                              None \<Rightarrow> 0 | Some c \<Rightarrow> c)"
    and "hm_d_nwc_pct_revenue hm = or_zero (fst (d_nwc_pct (window_of cf ys) (window_of bs ys) rv))"
    and "lg = snd (d_nwc_pct (window_of cf ys) (window_of bs ys) rv)"
    and "lookback_years hm = length ys"
    by (auto simp: compute_historical_metrics_def Let_def ys_def [symmetric] rv_def)
qed

lemma compute_historical_metrics_returns:
  assumes "has_col inc ''revenue''"
    and "df_empty cf \<or> set (lookback_window inc lookback) \<subseteq> set (index cf)"
    and "df_empty bs \<or> set (lookback_window inc lookback) \<subseteq> set (index bs)"
  shows "\<exists>hm lg. compute_historical_metrics inc cf bs lookback = Inr (hm, lg)"
proof -
  let ?ys = "lookback_window inc lookback"
  have li: "df_loc inc ?ys = Inr (inc\<lparr>index := ?ys\<rparr>)"
    using lookback_window_subset [of inc lookback] by (simp add: df_loc_def)
  have c: "window_frame cf ?ys = Inr (window_of cf ?ys)"
    using assms(2) by (auto simp: window_frame_def window_of_def df_loc_def)
  have b: "window_frame bs ?ys = Inr (window_of bs ?ys)"
    using assms(3) by (auto simp: window_frame_def window_of_def df_loc_def)
  show ?thesis using assms(1) li c b
    by (simp add: compute_historical_metrics_def Let_def)
qed




section \<open>Revenue CAGR\<close>

lemma cube_root_example: "(1331 / 1000 :: real) powr (1 / 3) = 11 / 10"
proof -
  have e: "(1331 / 1000 :: real) = (11 / 10) powr 3"
    by (simp add: powr_numeral power3_eq_cube)
  have "((11 / 10 :: real) powr 3) powr (1 / 3) = (11 / 10) powr (3 * (1 / 3))"
    by (rule powr_powr)
  also have "\<dots> = 11 / 10" by simp
  finally show ?thesis by (simp only: e)
qed

lemma compute_cagr_example:
  "compute_cagr [Some 100, Some 110, Some 121, Some 133.1] = Some 0.1"
proof -
  have d: "dropna [Some 100, Some 110, Some 121, Some 133.1] = [100, 110, 121, 133.1]"
    by (simp add: dropna_def)
  show ?thesis by (simp add: compute_cagr_def d cube_root_example)
qed

text \<open>
  C6. \<open>compute_cagr\<close> returns \<open>None\<close> when the series has fewer than 3 non-missing values
  or when the first or the last non-missing value is not positive; otherwise it returns
  \<open>(last / first) ^ (1 / (k - 1)) - 1\<close>, \<open>k\<close> the number of non-missing values, which is the
  rate that compounds the first value into the last over \<open>k - 1\<close> periods. The series
  \<open>[100, 110, 121, 133.1]\<close> gives 0.10. In the record that \<open>compute_historical_metrics\<close>
  returns, the revenue CAGR is that of the revenue over the lookback window, and 0 when
  \<open>compute_cagr\<close> returns \<open>None\<close>.
\<close>

theorem compute_cagr_spec:
  "(length (dropna s) < 3 \<or> hd (dropna s) \<le> 0 \<or> last (dropna s) \<le> 0 \<longrightarrow>
      compute_cagr s = None)
   \<and> (\<not> (length (dropna s) < 3 \<or> hd (dropna s) \<le> 0 \<or> last (dropna s) \<le> 0) \<longrightarrow>
        (\<exists>c. compute_cagr s = Some c
           \<and> c = (last (dropna s) / hd (dropna s)) powr (1 / real (length (dropna s) - 1)) - 1
           \<and> hd (dropna s) * (1 + c) ^ (length (dropna s) - 1) = last (dropna s)))
   \<and> compute_cagr [Some 100, Some 110, Some 121, Some 133.1] = Some 0.1
   \<and> (compute_historical_metrics inc cf bs lookback = Inr (hm, lg) \<longrightarrow>
        (\<exists>rv. df_get (inc\<lparr>index := lookback_window inc lookback\<rparr>) ''revenue'' = Some rv
           \<and> revenue_cagr hm = (case compute_cagr rv of None \<Rightarrow> 0 | Some c \<Rightarrow> c)))"
proof -
  have a: "length (dropna s) < 3 \<or> hd (dropna s) \<le> 0 \<or> last (dropna s) \<le> 0 \<longrightarrow>
      compute_cagr s = None"
    by (auto simp: compute_cagr_def Let_def)
  have b: "\<exists>c. compute_cagr s = Some c
           \<and> c = (last (dropna s) / hd (dropna s)) powr (1 / real (length (dropna s) - 1)) - 1
           \<and> hd (dropna s) * (1 + c) ^ (length (dropna s) - 1) = last (dropna s)"
    if h: "\<not> (length (dropna s) < 3 \<or> hd (dropna s) \<le> 0 \<or> last (dropna s) \<le> 0)"
  proof -
    let ?f = "hd (dropna s)" and ?l = "last (dropna s)" and ?n = "length (dropna s) - 1"
    from h have pos: "0 < ?f" "0 < ?l" and n: "0 < ?n" by auto
    let ?c = "(?l / ?f) powr (1 / real ?n) - 1"
    have q: "0 < ?l / ?f" using pos by simp
    have "0 < (?l / ?f) powr (1 / real ?n)" using pos by simp
    then have "(1 + ?c) ^ ?n = ((?l / ?f) powr (1 / real ?n)) powr real ?n"
      by (simp add: powr_realpow)
    also have "\<dots> = ?l / ?f" using n pos by (simp add: powr_powr)
    finally have "?f * (1 + ?c) ^ ?n = ?l" using pos by simp
    moreover have "compute_cagr s = Some ?c" using h by (simp add: compute_cagr_def Let_def)
    ultimately show ?thesis by blast
  qed
  have c: "\<exists>rv. df_get (inc\<lparr>index := lookback_window inc lookback\<rparr>) ''revenue'' = Some rv
           \<and> revenue_cagr hm = (case compute_cagr rv of None \<Rightarrow> 0 | Some c \<Rightarrow> c)"
    if r: "compute_historical_metrics inc cf bs lookback = Inr (hm, lg)"
    using compute_historical_metrics_Inr(2,3) [OF r] by (auto split: option.splits)
  from a b c compute_cagr_example show ?thesis by blast
qed

theorem compute_cagr_spec_witness:
  "length (dropna [Some 100, None, Some 110]) < 3
   \<and> compute_cagr [Some 100, None, Some 110] = None
   \<and> hd (dropna [Some (- 5), Some 110, Some 121]) \<le> 0
   \<and> compute_cagr [Some (- 5), Some 110, Some 121] = None
   \<and> \<not> (length (dropna [Some 100, None, Some 110, Some 121]) < 3
        \<or> hd (dropna [Some 100, None, Some 110, Some 121]) \<le> 0
        \<or> last (dropna [Some 100, None, Some 110, Some 121]) \<le> 0)
   \<and> compute_cagr [Some 100, None, Some 110, Some 121] = Some (1.21 powr (1 / 2) - 1)
   \<and> (\<exists>hm lg. compute_historical_metrics inc4 cf4 bs4 5 = Inr (hm, lg)
         \<and> revenue_cagr hm = 0.1)
   \<and> (\<exists>hm lg. compute_historical_metrics inc2 cf2 no_frame 5 = Inr (hm, lg)
         \<and> revenue_cagr hm = 0)"
proof -
  have d: "dropna [Some 100, None, Some 110] = [100, 110]"
          "dropna [Some (- 5), Some 110, Some 121] = [- 5, 110, 121]"
          "dropna [Some 100, None, Some 110, Some 121] = [100, 110, 121]"
    by (simp_all add: dropna_def)
  have w4: "lookback_window inc4 5 = [2020, 2021, 2022, 2023]"
    by (simp add: lookback_window_def inc4_def)
  have w2: "lookback_window inc2 5 = [2021, 2022]"
    by (simp add: lookback_window_def inc2_def)
  have p4: "has_col inc4 ''revenue''" by (simp add: inc4_def has_col_def)
  have q4: "df_empty cf4 \<or> set (lookback_window inc4 5) \<subseteq> set (index cf4)"
           "df_empty bs4 \<or> set (lookback_window inc4 5) \<subseteq> set (index bs4)"
    by (simp_all add: w4) (simp_all add: cf4_def bs4_def)
  have p2: "has_col inc2 ''revenue''" by (simp add: inc2_def has_col_def)
  have q2: "df_empty cf2 \<or> set (lookback_window inc2 5) \<subseteq> set (index cf2)"
           "df_empty no_frame \<or> set (lookback_window inc2 5) \<subseteq> set (index no_frame)"
    by (simp_all add: w2) (simp_all add: cf2_def no_frame_def df_empty_def)
  obtain hm lg where r4: "compute_historical_metrics inc4 cf4 bs4 5 = Inr (hm, lg)"
    using compute_historical_metrics_returns [OF p4 q4] by blast
  obtain hm' lg' where r2: "compute_historical_metrics inc2 cf2 no_frame 5 = Inr (hm', lg')"
    using compute_historical_metrics_returns [OF p2 q2] by blast
  have g4: "df_get (inc4\<lparr>index := lookback_window inc4 5\<rparr>) ''revenue''
              = Some [Some 100, Some 110, Some 121, Some 133.1]"
    by (simp add: w4) (simp add: inc4_def df_get_def)
  have g2: "df_get (inc2\<lparr>index := lookback_window inc2 5\<rparr>) ''revenue'' = Some [Some 100, Some 100]"
    by (simp add: w2) (simp add: inc2_def df_get_def)
  have c2: "compute_cagr [Some 100, Some 100] = None"
    by (simp add: compute_cagr_def dropna_def List.map_filter_simps)
  note t1 = compute_cagr_spec [of "[Some 100, None, Some 110]" inc4 cf4 bs4 5 hm lg]
  note t2 = compute_cagr_spec [of "[Some (- 5), Some 110, Some 121]" inc2 cf2 no_frame 5 hm' lg']
  note t3 = compute_cagr_spec [of "[Some 100, None, Some 110, Some 121]" inc4 cf4 bs4 5 hm lg]
  have h1: "length (dropna [Some 100, None, Some 110]) < 3" by (simp add: d)
  have h2: "hd (dropna [Some (- 5), Some 110, Some 121]) \<le> 0" by (simp add: d)
  have h3: "\<not> (length (dropna [Some 100, None, Some 110, Some 121]) < 3
        \<or> hd (dropna [Some 100, None, Some 110, Some 121]) \<le> 0
        \<or> last (dropna [Some 100, None, Some 110, Some 121]) \<le> 0)" by (simp add: d)
  have a1: "compute_cagr [Some 100, None, Some 110] = None" using t1 h1 by blast
  have a2: "compute_cagr [Some (- 5), Some 110, Some 121] = None" using t2 h2 by blast
  have a3: "compute_cagr [Some 100, None, Some 110, Some 121] = Some (1.21 powr (1 / 2) - 1)"
    using t3 h3 by (auto simp: d)
  have a4: "revenue_cagr hm = 0.1" using t1 r4 g4 compute_cagr_example by auto
  have a5: "revenue_cagr hm' = 0" using t2 r2 g2 c2 by auto
  from h1 h2 h3 a1 a2 a3 a4 a5 r4 r2 show ?thesis by blast
qed

section \<open>The working-capital share\<close>

lemma has_col_window_of: "has_col (window_of df ys) c \<longleftrightarrow> has_col df c \<and> index df \<noteq> []"
  by (auto simp: window_of_def df_empty_def has_col_def)

lemma series_diff_hd: "xs \<noteq> [] \<Longrightarrow> hd (series_diff xs) = None"
  by (cases xs) (simp_all add: series_diff_def)

lemma series_div_hd_None:
  "xs \<noteq> [] \<Longrightarrow> ys \<noteq> [] \<Longrightarrow> hd xs = None \<Longrightarrow> hd (series_div xs ys) = NaN"
  by (cases xs; cases ys) (simp_all add: series_div_def)

lemma index_window_of [simp]: "index (window_of df ys) = ys"
  by (simp add: window_of_def)

text \<open>
  C4, as the claim states it, fails on a short history: on an aligned triple of two
  fiscal years, with the cash-flow \<open>delta_nwc\<close> present for both, the median of its
  ratio to revenue is 0.1, but the metric is 0 and nothing is logged.
\<close>

theorem d_nwc_small_sample:
  "align_fiscal_years [inc2, cf2, bs2] = [inc2, cf2, bs2]
   \<and> compute_historical_metrics inc2 cf2 bs2 5
     = Inr (\<lparr>revenue_cagr = 0, hm_ebit_margin = Fin 0, hm_ebitda_margin = None,
              hm_capex_pct_revenue = Fin 0, hm_da_pct_revenue = Fin 0,
              hm_d_nwc_pct_revenue = Fin 0, lookback_years = 2\<rparr>, [])
   \<and> df_get cf2 ''delta_nwc'' = Some [Some 10, Some 10]
   \<and> df_get inc2 ''revenue'' = Some [Some 100, Some 100]
   \<and> np_median (series_div [Some 10, Some 10] [Some 100, Some 100]) = Fin (1 / 10)"
  by (simp add: compute_historical_metrics_def bs2_def inc2_def cf2_def align_fiscal_years_def
        has_col_def lookback_window_def df_loc_def window_frame_def
        df_empty_def df_get_def ratio_metric_def d_nwc_pct_def or_zero_def
        median_over_years_def fl_dropna_def series_div_def np_div_def compute_cagr_def
        dropna_def np_median_def fl_sort_def Let_def)

text \<open>
  C4, amended. In the result of \<open>compute_historical_metrics\<close>, over the lookback window:
  (1) if the cash-flow frame has rows and a \<open>delta_nwc\<close> column, the metric comes from
  \<open>delta_nwc\<close> divided by revenue, whatever the balance sheet holds; (2) otherwise, if the
  balance sheet has rows and both \<open>current_assets\<close> and \<open>current_liabilities\<close>, it comes
  from the year-over-year difference of their difference divided by revenue, the first
  year's ratio being missing; in both cases the metric is the median of the non-missing
  ratios when there are at least 3 of them and 0 otherwise, and nothing is logged;
  (3) if neither source is available the metric is 0 and the assumption is logged.
\<close>

theorem d_nwc_fallback_order:
  assumes "compute_historical_metrics inc cf bs lookback = Inr (hm, lg)"
  shows "\<exists>rv. df_get (inc\<lparr>index := lookback_window inc lookback\<rparr>) ''revenue'' = Some rv
     \<and> (has_col cf ''delta_nwc'' \<and> index cf \<noteq> [] \<longrightarrow>
          (\<exists>dn. df_get (cf\<lparr>index := lookback_window inc lookback\<rparr>) ''delta_nwc'' = Some dn
             \<and> hm_d_nwc_pct_revenue hm =
                 (if length (fl_dropna (series_div dn rv)) < 3 then Fin 0
                  else np_median (fl_dropna (series_div dn rv)))
             \<and> lg = []))
     \<and> (\<not> (has_col cf ''delta_nwc'' \<and> index cf \<noteq> [])
          \<and> has_col bs ''current_assets'' \<and> has_col bs ''current_liabilities'' \<and> index bs \<noteq> [] \<longrightarrow>
          (\<exists>ca cl d.
             df_get (bs\<lparr>index := lookback_window inc lookback\<rparr>) ''current_assets'' = Some ca
             \<and> df_get (bs\<lparr>index := lookback_window inc lookback\<rparr>) ''current_liabilities'' = Some cl
             \<and> d = series_div (series_diff (series_sub ca cl)) rv
             \<and> (d \<noteq> [] \<longrightarrow> hd d = NaN)
             \<and> hm_d_nwc_pct_revenue hm =
                 (if length (fl_dropna d) < 3 then Fin 0 else np_median (fl_dropna d))
             \<and> lg = []))
     \<and> (\<not> (has_col cf ''delta_nwc'' \<and> index cf \<noteq> [])
          \<and> \<not> (has_col bs ''current_assets'' \<and> has_col bs ''current_liabilities'' \<and> index bs \<noteq> []) \<longrightarrow>
          hm_d_nwc_pct_revenue hm = Fin 0 \<and> lg = [Assumption nwc_fallback_message])"
proof -
  let ?ys = "lookback_window inc lookback"
  let ?cf = "window_of cf ?ys" and ?bs = "window_of bs ?ys"
  note r = compute_historical_metrics_Inr [OF assms]
  from r(2) obtain rv where rv: "df_get (inc\<lparr>index := ?ys\<rparr>) ''revenue'' = Some rv" by auto
  have m: "or_zero (ratio_metric (Some n) (Some rv)) =
             (if length (fl_dropna (series_div n rv)) < 3 then Fin 0
              else np_median (fl_dropna (series_div n rv)))" for n
    by (simp add: or_zero_def ratio_metric_def median_over_years_def Let_def)
  have one: "\<exists>dn. df_get (cf\<lparr>index := ?ys\<rparr>) ''delta_nwc'' = Some dn
             \<and> hm_d_nwc_pct_revenue hm =
                 (if length (fl_dropna (series_div dn rv)) < 3 then Fin 0
                  else np_median (fl_dropna (series_div dn rv)))
             \<and> lg = []"
    if h: "has_col cf ''delta_nwc'' \<and> index cf \<noteq> []"
  proof -
    from h have ne: "\<not> df_empty cf" by (auto simp: df_empty_def has_col_def)
    then have w: "?cf = cf\<lparr>index := ?ys\<rparr>" by (simp add: window_of_def)
    from h obtain dn where dn: "df_get (cf\<lparr>index := ?ys\<rparr>) ''delta_nwc'' = Some dn"
      using has_col_df_get [of "cf\<lparr>index := ?ys\<rparr>" "''delta_nwc''"] by auto
    have hc: "has_col ?cf ''delta_nwc''" using h by (simp add: has_col_window_of)
    from r(4,5) hc show ?thesis
      by (simp add: d_nwc_pct_def rv w dn m)
  qed
  have two: "\<exists>ca cl d.
             df_get (bs\<lparr>index := ?ys\<rparr>) ''current_assets'' = Some ca
             \<and> df_get (bs\<lparr>index := ?ys\<rparr>) ''current_liabilities'' = Some cl
             \<and> d = series_div (series_diff (series_sub ca cl)) rv
             \<and> (d \<noteq> [] \<longrightarrow> hd d = NaN)
             \<and> hm_d_nwc_pct_revenue hm =
                 (if length (fl_dropna d) < 3 then Fin 0 else np_median (fl_dropna d))
             \<and> lg = []"
    if h: "\<not> (has_col cf ''delta_nwc'' \<and> index cf \<noteq> [])"
          "has_col bs ''current_assets'' \<and> has_col bs ''current_liabilities'' \<and> index bs \<noteq> []"
  proof -
    from h(2) have ne: "\<not> df_empty bs" by (auto simp: df_empty_def has_col_def)
    then have w: "?bs = bs\<lparr>index := ?ys\<rparr>" by (simp add: window_of_def)
    from h(2) obtain ca cl where
      ca: "df_get (bs\<lparr>index := ?ys\<rparr>) ''current_assets'' = Some ca" and
      cl: "df_get (bs\<lparr>index := ?ys\<rparr>) ''current_liabilities'' = Some cl"
      using has_col_df_get [of "bs\<lparr>index := ?ys\<rparr>" "''current_assets''"]
            has_col_df_get [of "bs\<lparr>index := ?ys\<rparr>" "''current_liabilities''"] by auto
    let ?d = "series_div (series_diff (series_sub ca cl)) rv"
    have nc: "\<not> has_col ?cf ''delta_nwc''" using h(1) by (simp add: has_col_window_of)
    have hb: "has_col ?bs ''current_assets''" "has_col ?bs ''current_liabilities''"
      using h(2) by (simp_all add: has_col_window_of)
    have hd: "hd ?d = NaN" if "?d \<noteq> []"
    proof -
      from that have a: "series_diff (series_sub ca cl) \<noteq> []" "rv \<noteq> []"
        by (auto simp: series_div_def)
      then have "series_sub ca cl \<noteq> []" by (auto simp: series_diff_def)
      from series_diff_hd [OF this] a show ?thesis by (simp add: series_div_hd_None)
    qed
    from r(4,5) nc hb have "hm_d_nwc_pct_revenue hm =
        (if length (fl_dropna ?d) < 3 then Fin 0 else np_median (fl_dropna ?d)) \<and> lg = []"
      by (simp add: d_nwc_pct_def rv w ca cl m Let_def)
    with ca cl hd show ?thesis by blast
  qed
  have three: "hm_d_nwc_pct_revenue hm = Fin 0 \<and> lg = [Assumption nwc_fallback_message]"
    if h: "\<not> (has_col cf ''delta_nwc'' \<and> index cf \<noteq> [])"
          "\<not> (has_col bs ''current_assets'' \<and> has_col bs ''current_liabilities'' \<and> index bs \<noteq> [])"
  proof -
    have nc: "\<not> has_col ?cf ''delta_nwc''" using h(1) by (simp add: has_col_window_of)
    have nb: "\<not> (has_col ?bs ''current_assets'' \<and> has_col ?bs ''current_liabilities'')"
      using h(2) by (auto simp: has_col_window_of)
    from r(4,5) nc nb show ?thesis
      by (auto simp: d_nwc_pct_def or_zero_def log_assumption_def)
  qed
  from rv one two three show ?thesis by blast
qed

theorem d_nwc_fallback_order_witness:
  "align_fiscal_years [inc4, cf4, bs4] = [inc4, cf4, bs4]
   \<and> align_fiscal_years [inc4, cf4_capex, bs4] = [inc4, cf4_capex, bs4]
   \<and> align_fiscal_years [inc4, cf4_capex, bs4_cash] = [inc4, cf4_capex, bs4_cash]
   \<and> (\<exists>hm lg. compute_historical_metrics inc4 cf4 bs4 5 = Inr (hm, lg)
      \<and> has_col cf4 ''delta_nwc'' \<and> index cf4 \<noteq> []
      \<and> hm_d_nwc_pct_revenue hm = Fin 0.25 \<and> lg = [])
   \<and> (\<exists>hm lg. compute_historical_metrics inc4 cf4_capex bs4 5 = Inr (hm, lg)
      \<and> \<not> (has_col cf4_capex ''delta_nwc'' \<and> index cf4_capex \<noteq> [])
      \<and> has_col bs4 ''current_assets'' \<and> has_col bs4 ''current_liabilities'' \<and> index bs4 \<noteq> []
      \<and> hm_d_nwc_pct_revenue hm = Fin 0.2 \<and> lg = [])
   \<and> (\<exists>hm lg. compute_historical_metrics inc4 cf4_capex bs4_cash 5 = Inr (hm, lg)
      \<and> \<not> (has_col bs4_cash ''current_assets'' \<and> has_col bs4_cash ''current_liabilities''
            \<and> index bs4_cash \<noteq> [])
      \<and> hm_d_nwc_pct_revenue hm = Fin 0 \<and> lg = [Assumption nwc_fallback_message])"
proof -
  have w4: "lookback_window inc4 5 = [2020, 2021, 2022, 2023]"
    by (simp add: lookback_window_def inc4_def)
  have p4: "has_col inc4 ''revenue''" by (simp add: inc4_def has_col_def)
  have qc: "df_empty cf4 \<or> set (lookback_window inc4 5) \<subseteq> set (index cf4)"
    and qb: "df_empty bs4 \<or> set (lookback_window inc4 5) \<subseteq> set (index bs4)"
    by (simp_all add: w4) (simp_all add: cf4_def bs4_def)
  have qn: "df_empty cf4_capex \<or> set (lookback_window inc4 5) \<subseteq> set (index cf4_capex)"
    and qm: "df_empty bs4_cash \<or> set (lookback_window inc4 5) \<subseteq> set (index bs4_cash)"
    by (simp_all add: w4) (simp_all add: cf4_capex_def bs4_cash_def)
  have al: "align_fiscal_years [inc4, cf4, bs4] = [inc4, cf4, bs4]"
           "align_fiscal_years [inc4, cf4_capex, bs4] = [inc4, cf4_capex, bs4]"
           "align_fiscal_years [inc4, cf4_capex, bs4_cash] = [inc4, cf4_capex, bs4_cash]"
    by (simp_all add: align_fiscal_years_def inc4_def cf4_def bs4_def cf4_capex_def bs4_cash_def
          Let_def)
  have hc: "has_col cf4 ''delta_nwc'' \<and> index cf4 \<noteq> []" by (simp add: cf4_def has_col_def)
  have hn: "\<not> (has_col cf4_capex ''delta_nwc'' \<and> index cf4_capex \<noteq> [])"
           "\<not> (has_col bs4_cash ''current_assets'' \<and> has_col bs4_cash ''current_liabilities''
               \<and> index bs4_cash \<noteq> [])"
    by (simp_all add: cf4_capex_def bs4_cash_def has_col_def)
  have hb: "has_col bs4 ''current_assets'' \<and> has_col bs4 ''current_liabilities'' \<and> index bs4 \<noteq> []"
    by (simp add: bs4_def has_col_def)
  have rv: "df_get (inc4\<lparr>index := lookback_window inc4 5\<rparr>) ''revenue''
              = Some [Some 100, Some 110, Some 121, Some (1331 / 10)]"
    by (simp add: w4) (simp add: inc4_def df_get_def)
  have dn: "df_get (cf4\<lparr>index := lookback_window inc4 5\<rparr>) ''delta_nwc''
              = Some [Some 10, Some 22, Some (363 / 10), Some (1331 / 25)]"
    by (simp add: w4) (simp add: cf4_def df_get_def)
  have ca: "df_get (bs4\<lparr>index := lookback_window inc4 5\<rparr>) ''current_assets''
              = Some [Some 50, Some 61, Some (426 / 5), Some (12513 / 100)]"
    by (simp add: w4) (simp add: bs4_def df_get_def)
  have cl: "df_get (bs4\<lparr>index := lookback_window inc4 5\<rparr>) ''current_liabilities''
              = Some [Some 0, Some 0, Some 0, Some 0]"
    by (simp add: w4) (simp add: bs4_def df_get_def)
  have e1: "(if length (fl_dropna (series_div [Some 10, Some 22, Some (363 / 10), Some (1331 / 25)]
                         [Some 100, Some 110, Some 121, Some (1331 / 10)])) < 3 then Fin 0
             else np_median (fl_dropna (series_div [Some 10, Some 22, Some (363 / 10), Some (1331 / 25)]
                         [Some 100, Some 110, Some 121, Some (1331 / 10)]))) = Fin (1 / 4)"
    by (simp add: series_div_def np_div_def fl_dropna_def np_median_def fl_sort_def)
  have e2: "(if length (fl_dropna (series_div (series_diff (series_sub
                  [Some 50, Some 61, Some (426 / 5), Some (12513 / 100)]
                  [Some 0, Some 0, Some 0, Some 0]))
                  [Some 100, Some 110, Some 121, Some (1331 / 10)])) < 3 then Fin 0
             else np_median (fl_dropna (series_div (series_diff (series_sub
                  [Some 50, Some 61, Some (426 / 5), Some (12513 / 100)]
                  [Some 0, Some 0, Some 0, Some 0]))
                  [Some 100, Some 110, Some 121, Some (1331 / 10)]))) = Fin (1 / 5)"
    by (simp add: series_div_def series_diff_def series_sub_def np_div_def fl_dropna_def
          np_median_def fl_sort_def)
  obtain hm1 lg1 where r1: "compute_historical_metrics inc4 cf4 bs4 5 = Inr (hm1, lg1)"
    using compute_historical_metrics_returns [OF p4 qc qb] by blast
  obtain hm2 lg2 where r2: "compute_historical_metrics inc4 cf4_capex bs4 5 = Inr (hm2, lg2)"
    using compute_historical_metrics_returns [OF p4 qn qb] by blast
  obtain hm3 lg3 where r3: "compute_historical_metrics inc4 cf4_capex bs4_cash 5 = Inr (hm3, lg3)"
    using compute_historical_metrics_returns [OF p4 qn qm] by blast
  have a1: "hm_d_nwc_pct_revenue hm1 = Fin 0.25 \<and> lg1 = []"
    using d_nwc_fallback_order [OF r1] hc by (auto simp: rv dn e1)
  have a2: "hm_d_nwc_pct_revenue hm2 = Fin 0.2 \<and> lg2 = []"
    using d_nwc_fallback_order [OF r2] hn(1) hb by (auto simp: rv ca cl e2)
  have a3: "hm_d_nwc_pct_revenue hm3 = Fin 0 \<and> lg3 = [Assumption nwc_fallback_message]"
    using d_nwc_fallback_order [OF r3] hn by blast
  from al r1 r2 r3 a1 a2 a3 hc hn hb show ?thesis by blast
qed

section \<open>Normalized statements\<close>

lemma replace_keys:
  "map fst (map (\<lambda>(k, v). if k = c then (k, f) else (k, v)) xs) = map fst xs"
  by (induction xs) (auto split: prod.splits)

lemma has_col_set_col: "has_col (set_col df c f) c' \<longleftrightarrow> c' = c \<or> has_col df c'"
proof (cases "has_col df c")
  case True
  then have "has_col (set_col df c f) c' \<longleftrightarrow> has_col df c'"
    by (simp add: set_col_def has_col_def replace_keys del: map_map)
  with True show ?thesis by auto
next
  case False
  then show ?thesis by (auto simp: set_col_def has_col_def)
qed

lemma map_of_replace:
  "map_of (map (\<lambda>(k, v). if k = c then (k, f) else (k, v)) xs) c' =
     (if c' = c then (if c \<in> set (map fst xs) then Some f else None) else map_of xs c')"
  by (induction xs) (auto split: prod.splits simp: rev_image_eqI)

lemma map_of_set_col:
  "map_of (columns (set_col df c f)) c' = (if c' = c then Some f else map_of (columns df) c')"
proof (cases "has_col df c")
  case True
  then show ?thesis by (simp add: set_col_def map_of_replace has_col_def)
next
  case False
  then have "map_of (columns df) c = None" by (simp add: has_col_map_of)
  with False show ?thesis by (auto simp: set_col_def map_add_def split: option.splits)
qed

lemma apply_label_map_has_col:
  "has_col (apply_label_map src lm n) c \<longleftrightarrow>
     has_col n c \<or> (\<exists>raw. (raw, c) \<in> set lm \<and> has_col src raw)"
proof (induction lm arbitrary: n)
  case Nil
  then show ?case by simp
next
  case (Cons p lm)
  obtain raw canon where p: "p = (raw, canon)" by (cases p)
  show ?case
  proof (cases "map_of (columns src) raw")
    case None
    then have "\<not> has_col src raw" by (simp add: has_col_map_of)
    with None Cons.IH [of n] p show ?thesis by auto
  next
    case (Some f)
    then have "has_col src raw" by (simp add: has_col_map_of)
    with Some Cons.IH [of "set_col n canon f"] p show ?thesis
      by (auto simp: has_col_set_col)
  qed
qed

lemma set_first_has_col:
  "has_col (set_first src ls c n) c' \<longleftrightarrow> has_col n c' \<or> (c' = c \<and> (\<exists>l \<in> set ls. has_col src l))"
proof -
  have "first_present src ls = None \<longleftrightarrow> \<not> (\<exists>l \<in> set ls. has_col src l)"
    by (induction ls) (auto simp: has_col_map_of split: option.splits)
  then show ?thesis
    by (cases "first_present src ls") (auto simp: set_first_def has_col_set_col)
qed

lemma col_list_Nil: "col_list src l = [] \<longleftrightarrow> \<not> has_col src l"
  by (simp add: col_list_def has_col_map_of split: option.splits)

lemma columns_subset: "set (map fst (columns df)) \<subseteq> S \<longleftrightarrow> (\<forall>c. has_col df c \<longrightarrow> c \<in> S)"
  by (auto simp: has_col_def)

lemma normalize_income_has_col:
  "has_col (fst (normalize_income inc)) c \<longleftrightarrow>
     (\<exists>raw. (raw, c) \<in> set income_label_map \<and> has_col inc raw)"
  by (simp add: normalize_income_def Let_def apply_label_map_has_col)

lemma normalize_cashflow_has_col:
  "has_col (fst (normalize_cashflow cf)) c \<longleftrightarrow>
     (\<exists>cf'. cf = Some cf' \<and> \<not> df_empty cf'
        \<and> (\<exists>raw. (raw, c) \<in> set cashflow_label_map \<and> has_col cf' raw))"
proof (cases cf)
  case None
  then show ?thesis by (simp add: normalize_cashflow_def)
next
  case (Some cf')
  let ?n = "apply_label_map cf' cashflow_label_map \<lparr>index = index cf', columns = []\<rparr>"
  have "has_col (case map_of (columns ?n) ''capex'' of None \<Rightarrow> ?n
                 | Some f \<Rightarrow> set_col ?n ''capex'' (abs_col f)) c \<longleftrightarrow> has_col ?n c"
    using has_col_map_of [of ?n "''capex''"]
    by (cases "map_of (columns ?n) ''capex''") (auto simp: has_col_set_col)
  with Some show ?thesis
    by (simp add: normalize_cashflow_def Let_def apply_label_map_has_col)
qed

lemma normalize_balance_has_col:
  "has_col (fst (normalize_balance bs)) c \<longleftrightarrow>
     (\<exists>bs'. bs = Some bs' \<and> \<not> df_empty bs'
        \<and> (c = ''current_assets''
              \<and> (\<exists>l \<in> set [''Total Current Assets'', ''Current Assets'', ''CurrentAssets''].
                    has_col bs' l)
          \<or> c = ''current_liabilities''
              \<and> (\<exists>l \<in> set [''Total Current Liabilities'', ''Current Liabilities'',
                             ''CurrentLiabilities'',
                             ''Current Liabilities Net Minority Interest'']. has_col bs' l)
          \<or> c = ''cash'' \<and> (\<exists>l \<in> set [''Cash And Cash Equivalents'', ''Cash'']. has_col bs' l)
          \<or> c = ''total_debt''
              \<and> (has_col bs' ''Total Debt'' \<or> has_col bs' ''Short Long Term Debt''
                    \<or> has_col bs' ''Long Term Debt'')))"
proof (cases bs)
  case None
  then show ?thesis by (simp add: normalize_balance_def)
next
  case (Some bs')
  show ?thesis
  proof (cases "df_empty bs'")
    case True
    with Some show ?thesis by (simp add: normalize_balance_def)
  next
    case False
    with Some show ?thesis
      by (cases "map_of (columns bs') ''Total Debt''")
        (auto simp: normalize_balance_def Let_def set_first_has_col has_col_set_col
          col_list_Nil has_col_map_of [of bs' "''Total Debt''"])
  qed
qed

lemma normalize_cashflow_capex:
  assumes "map_of (columns (fst (normalize_cashflow cf))) ''capex'' = Some g" and "g y = Some v"
  shows "0 \<le> v"
proof (cases cf)
  case None
  with assms(1) show ?thesis by (simp add: normalize_cashflow_def)
next
  case (Some cf')
  let ?n = "apply_label_map cf' cashflow_label_map \<lparr>index = index cf', columns = []\<rparr>"
  show ?thesis
  proof (cases "df_empty cf'")
    case True
    with Some assms(1) show ?thesis by (simp add: normalize_cashflow_def)
  next
    case False
    show ?thesis
    proof (cases "map_of (columns ?n) ''capex''")
      case None
      with Some False assms(1) show ?thesis by (simp add: normalize_cashflow_def Let_def)
    next
      case (Some f)
      with \<open>cf = Some cf'\<close> False assms(1) have "g = abs_col f"
        by (simp add: normalize_cashflow_def Let_def map_of_set_col)
      with assms(2) show ?thesis by (auto simp: abs_col_def)
    qed
  qed
qed

lemma income_label_map_canonical:
  "(raw, c) \<in> set income_label_map \<Longrightarrow> c \<in> set canonical_income"
  by (auto simp: income_label_map_def canonical_income_def)

lemma cashflow_label_map_canonical:
  "(raw, c) \<in> set cashflow_label_map \<Longrightarrow> c \<in> set canonical_cashflow"
  by (auto simp: cashflow_label_map_def canonical_cashflow_def)

text \<open>
  C8. Every column of a statement normalized by \<open>normalize_income\<close>,
  \<open>normalize_cashflow\<close> or \<open>normalize_balance\<close> is in the canonical vocabulary; a
  canonical column is present exactly when one of its source labels is a column of the
  raw statement (no column is made up and filled); and every value of the normalized
  cash-flow \<open>capex\<close> column is non-negative, under every row label.
\<close>

theorem normalized_columns_canonical:
  "set (map fst (columns (fst (normalize_income inc)))) \<subseteq> set canonical_income
   \<and> set (map fst (columns (fst (normalize_cashflow cf)))) \<subseteq> set canonical_cashflow
   \<and> set (map fst (columns (fst (normalize_balance bs)))) \<subseteq> set canonical_balance
   \<and> (\<forall>c. has_col (fst (normalize_income inc)) c \<longleftrightarrow>
            (\<exists>raw. (raw, c) \<in> set income_label_map \<and> has_col inc raw))
   \<and> (\<forall>c. has_col (fst (normalize_cashflow cf)) c \<longleftrightarrow>
            (\<exists>cf'. cf = Some cf' \<and> \<not> df_empty cf'
               \<and> (\<exists>raw. (raw, c) \<in> set cashflow_label_map \<and> has_col cf' raw)))
   \<and> (\<forall>bs'. bs = Some bs' \<and> \<not> df_empty bs' \<longrightarrow>
         (has_col (fst (normalize_balance bs)) ''current_assets'' \<longleftrightarrow>
            has_col bs' ''Total Current Assets'' \<or> has_col bs' ''Current Assets''
            \<or> has_col bs' ''CurrentAssets'')
       \<and> (has_col (fst (normalize_balance bs)) ''current_liabilities'' \<longleftrightarrow>
            has_col bs' ''Total Current Liabilities'' \<or> has_col bs' ''Current Liabilities''
            \<or> has_col bs' ''CurrentLiabilities''
            \<or> has_col bs' ''Current Liabilities Net Minority Interest'')
       \<and> (has_col (fst (normalize_balance bs)) ''cash'' \<longleftrightarrow>
            has_col bs' ''Cash And Cash Equivalents'' \<or> has_col bs' ''Cash'')
       \<and> (has_col (fst (normalize_balance bs)) ''total_debt'' \<longleftrightarrow>
            has_col bs' ''Total Debt'' \<or> has_col bs' ''Short Long Term Debt''
            \<or> has_col bs' ''Long Term Debt''))
   \<and> (\<forall>g y v. map_of (columns (fst (normalize_cashflow cf))) ''capex'' = Some g \<and> g y = Some v
         \<longrightarrow> 0 \<le> v)
   \<and> (\<forall>s v. df_get (fst (normalize_cashflow cf)) ''capex'' = Some s \<and> Some v \<in> set s
         \<longrightarrow> 0 \<le> v)"
proof -
  have i: "set (map fst (columns (fst (normalize_income inc)))) \<subseteq> set canonical_income"
    unfolding columns_subset normalize_income_has_col using income_label_map_canonical by blast
  have c: "set (map fst (columns (fst (normalize_cashflow cf)))) \<subseteq> set canonical_cashflow"
    unfolding columns_subset normalize_cashflow_has_col using cashflow_label_map_canonical
    by blast
  have b: "set (map fst (columns (fst (normalize_balance bs)))) \<subseteq> set canonical_balance"
    unfolding columns_subset normalize_balance_has_col by (auto simp: canonical_balance_def)
  have ih: "\<forall>c. has_col (fst (normalize_income inc)) c \<longleftrightarrow>
            (\<exists>raw. (raw, c) \<in> set income_label_map \<and> has_col inc raw)"
    by (simp only: normalize_income_has_col) simp
  have ch: "\<forall>c. has_col (fst (normalize_cashflow cf)) c \<longleftrightarrow>
            (\<exists>cf'. cf = Some cf' \<and> \<not> df_empty cf'
               \<and> (\<exists>raw. (raw, c) \<in> set cashflow_label_map \<and> has_col cf' raw))"
    by (simp only: normalize_cashflow_has_col) simp
  have p: "\<forall>bs'. bs = Some bs' \<and> \<not> df_empty bs' \<longrightarrow>
         (has_col (fst (normalize_balance bs)) ''current_assets'' \<longleftrightarrow>
            has_col bs' ''Total Current Assets'' \<or> has_col bs' ''Current Assets''
            \<or> has_col bs' ''CurrentAssets'')
       \<and> (has_col (fst (normalize_balance bs)) ''current_liabilities'' \<longleftrightarrow>
            has_col bs' ''Total Current Liabilities'' \<or> has_col bs' ''Current Liabilities''
            \<or> has_col bs' ''CurrentLiabilities''
            \<or> has_col bs' ''Current Liabilities Net Minority Interest'')
       \<and> (has_col (fst (normalize_balance bs)) ''cash'' \<longleftrightarrow>
            has_col bs' ''Cash And Cash Equivalents'' \<or> has_col bs' ''Cash'')
       \<and> (has_col (fst (normalize_balance bs)) ''total_debt'' \<longleftrightarrow>
            has_col bs' ''Total Debt'' \<or> has_col bs' ''Short Long Term Debt''
            \<or> has_col bs' ''Long Term Debt'')"
    by (simp add: normalize_balance_has_col)
  have x: "\<forall>g y v. map_of (columns (fst (normalize_cashflow cf))) ''capex'' = Some g \<and> g y = Some v
         \<longrightarrow> 0 \<le> v"
    using normalize_cashflow_capex by blast
  have z: "\<forall>s v. df_get (fst (normalize_cashflow cf)) ''capex'' = Some s \<and> Some v \<in> set s
         \<longrightarrow> 0 \<le> v"
    using normalize_cashflow_capex [of cf] by (auto simp: df_get_def split: option.splits)
  show ?thesis by (intro conjI i c b ih ch p x z)
qed
theorem normalized_columns_canonical_witness:
  "map fst (columns (fst (normalize_income raw_inc))) = [''revenue'', ''net_income'']
   \<and> set [''revenue'', ''net_income''] \<subseteq> set canonical_income
   \<and> map fst (columns (fst (normalize_cashflow (Some raw_cf)))) = [''capex'', ''cfo'']
   \<and> set [''capex'', ''cfo''] \<subseteq> set canonical_cashflow
   \<and> map fst (columns (fst (normalize_balance (Some raw_bs)))) = [''current_assets'', ''total_debt'']
   \<and> set [''current_assets'', ''total_debt''] \<subseteq> set canonical_balance
   \<and> \<not> df_empty raw_cf \<and> \<not> df_empty raw_bs
   \<and> has_col raw_bs ''Current Assets'' \<and> has_col (fst (normalize_balance (Some raw_bs))) ''current_assets''
   \<and> df_get raw_cf ''Capital Expenditure'' = Some [Some (- 50), Some (- 60)]
   \<and> df_get (fst (normalize_cashflow (Some raw_cf))) ''capex'' = Some [Some 50, Some 60]
   \<and> Some 50 \<in> set [Some 50, Some (60 :: real)] \<and> (0 :: real) \<le> 50
   \<and> \<not> has_col (fst (normalize_cashflow (Some raw_cf))) ''da''"
proof -
  have ci: "map fst (columns (fst (normalize_income raw_inc))) = [''revenue'', ''net_income'']"
    by (simp add: normalize_income_def raw_inc_def income_label_map_def set_col_def has_col_def
          Let_def)
  have cc: "map fst (columns (fst (normalize_cashflow (Some raw_cf)))) = [''capex'', ''cfo'']"
    by (simp add: normalize_cashflow_def raw_cf_def cashflow_label_map_def set_col_def
          has_col_def df_empty_def Let_def)
  have cb: "map fst (columns (fst (normalize_balance (Some raw_bs))))
              = [''current_assets'', ''total_debt'']"
    by (simp add: normalize_balance_def raw_bs_def set_first_def set_col_def has_col_def
          df_empty_def col_list_def Let_def)
  have ne: "\<not> df_empty raw_cf" "\<not> df_empty raw_bs"
    by (simp_all add: df_empty_def raw_cf_def raw_bs_def)
  have hb: "has_col raw_bs ''Current Assets''" by (simp add: has_col_def raw_bs_def)
  have g0: "df_get raw_cf ''Capital Expenditure'' = Some [Some (- 50), Some (- 60)]"
    by (simp add: df_get_def raw_cf_def)
  have g1: "df_get (fst (normalize_cashflow (Some raw_cf))) ''capex'' = Some [Some 50, Some 60]"
    by (simp add: normalize_cashflow_def raw_cf_def cashflow_label_map_def set_col_def
          has_col_def df_empty_def df_get_def abs_col_def Let_def)
  note t = normalized_columns_canonical [of raw_inc "Some raw_cf" "Some raw_bs"]
  note t1 = t [THEN conjunct1]
  note t2 = t [THEN conjunct2, THEN conjunct1]
  note t3 = t [THEN conjunct2, THEN conjunct2, THEN conjunct1]
  note t5 = t [THEN conjunct2, THEN conjunct2, THEN conjunct2, THEN conjunct2, THEN conjunct1]
  note t6 = t [THEN conjunct2, THEN conjunct2, THEN conjunct2, THEN conjunct2, THEN conjunct2,
               THEN conjunct1]
  note t8 = t [THEN conjunct2, THEN conjunct2, THEN conjunct2, THEN conjunct2, THEN conjunct2,
               THEN conjunct2, THEN conjunct2]
  have s: "set [''revenue'', ''net_income''] \<subseteq> set canonical_income"
          "set [''capex'', ''cfo''] \<subseteq> set canonical_cashflow"
          "set [''current_assets'', ''total_debt''] \<subseteq> set canonical_balance"
    using t1 t2 t3 by (simp_all only: ci cc cb)
  have a: "has_col (fst (normalize_balance (Some raw_bs))) ''current_assets''"
    using t6 [rule_format, of raw_bs] ne hb by blast
  have m: "Some 50 \<in> set [Some 50, Some (60 :: real)]" by simp
  have v: "(0 :: real) \<le> 50" using t8 [rule_format, of "[Some 50, Some 60]" 50] g1 m by blast
  have nd: "\<not> has_col (fst (normalize_cashflow (Some raw_cf))) ''da''"
  proof
    assume "has_col (fst (normalize_cashflow (Some raw_cf))) ''da''"
    with t5 [rule_format, of "''da''"] obtain raw where
      "(raw, ''da'') \<in> set cashflow_label_map" "has_col raw_cf raw"
      by blast
    then show False by (auto simp: cashflow_label_map_def has_col_def raw_cf_def)
  qed
  show ?thesis by (intro conjI ci cc cb s ne hb a g0 g1 m v nd)
qed

end
